theory Spec2Isabelle
  imports Complex_Main
begin

section \<open>DDPG (garage/tf/algos/ddpg.py): data model\<close>

text \<open>
  The embedding follows \<^verbatim>\<open>src/garage/tf/algos/ddpg.py\<close>. Python integers given to the
  constructor are \<^typ>\<open>int\<close>; counters that the program only increments from zero are
  \<^typ>\<open>nat\<close>. A Python exception is a value \<open>Raised e\<close>; the state reached when the exception
  leaves a method is returned beside it, since the objects stay mutated.
\<close>

datatype error = TypeError | ValueError | IndexError | ZeroDivisionError

datatype 'a result = is_Raised: Raised (the_error: error) | is_Returned: Returned (the_value: 'a)

subsection \<open>numpy floats\<close>

text \<open>
  A float is a finite number or one of \<^verbatim>\<open>inf\<close>, \<^verbatim>\<open>-inf\<close>, \<^verbatim>\<open>nan\<close>. The arithmetic of the
  non-finite values is that of IEEE 754: \<^verbatim>\<open>nan\<close> propagates, \<^verbatim>\<open>inf - inf\<close> and \<^verbatim>\<open>0 * inf\<close> are
  \<^verbatim>\<open>nan\<close>. Finite values are idealised as reals: an operation on two finite values is exact
  and stays finite, and there is one zero.
\<close>

datatype np_float = is_finite: Finite (the_real: real) | PInf | NInf | NaN

fun fneg :: "np_float \<Rightarrow> np_float" where
  "fneg (Finite a) = Finite (- a)"
| "fneg PInf = NInf"
| "fneg NInf = PInf"
| "fneg NaN = NaN"

fun fadd :: "np_float \<Rightarrow> np_float \<Rightarrow> np_float" where
  "fadd (Finite a) (Finite b) = Finite (a + b)"
| "fadd NaN y = NaN"
| "fadd x NaN = NaN"
| "fadd PInf NInf = NaN"
| "fadd NInf PInf = NaN"
| "fadd PInf y = PInf"
| "fadd x PInf = PInf"
| "fadd NInf y = NInf"
| "fadd x NInf = NInf"

definition fsub :: "np_float \<Rightarrow> np_float \<Rightarrow> np_float" where
  "fsub x y = fadd x (fneg y)"

text \<open>The infinity with the sign of the finite factor \<open>b\<close> times the sign of \<open>s\<close>.\<close>

definition inf_times :: "bool \<Rightarrow> real \<Rightarrow> np_float" where
  "inf_times positive b =
     (if b = 0 then NaN else if (0 < b) = positive then PInf else NInf)"

fun fmul :: "np_float \<Rightarrow> np_float \<Rightarrow> np_float" where
  "fmul (Finite a) (Finite b) = Finite (a * b)"
| "fmul NaN y = NaN"
| "fmul x NaN = NaN"
| "fmul PInf (Finite b) = inf_times True b"
| "fmul NInf (Finite b) = inf_times False b"
| "fmul (Finite a) PInf = inf_times True a"
| "fmul (Finite a) NInf = inf_times False a"
| "fmul PInf PInf = PInf"
| "fmul NInf NInf = PInf"
| "fmul PInf NInf = NInf"
| "fmul NInf PInf = NInf"

fun fabs :: "np_float \<Rightarrow> np_float" where
  "fabs (Finite a) = Finite \<bar>a\<bar>"
| "fabs PInf = PInf"
| "fabs NInf = PInf"
| "fabs NaN = NaN"

text \<open>\<^verbatim>\<open>np.maximum\<close>: \<^verbatim>\<open>nan\<close> if either argument is.\<close>

fun fmax :: "np_float \<Rightarrow> np_float \<Rightarrow> np_float" where
  "fmax (Finite a) (Finite b) = Finite (max a b)"
| "fmax NaN y = NaN"
| "fmax x NaN = NaN"
| "fmax PInf y = PInf"
| "fmax x PInf = PInf"
| "fmax NInf y = y"
| "fmax x NInf = x"

text \<open>Division of a sum by the number of its terms.\<close>

fun fdiv_count :: "np_float \<Rightarrow> nat \<Rightarrow> np_float" where
  "fdiv_count (Finite a) n = Finite (a / real n)"
| "fdiv_count x n = x"

subsection \<open>Transitions and the replay buffer\<close>

type_synonym vec = "np_float list"

record transition =
  observation :: vec
  action :: vec
  reward :: np_float
  next_observation :: vec
  terminal :: np_float

text \<open>
  Modelled from the spec: the replay buffer (\<^verbatim>\<open>garage.replay_buffer\<close>) is not among the
  sources. The spec calls it an append-only store of transitions that exposes a sampling
  operation and its size.
\<close>

record replay_buffer =
  storage :: "transition list"

definition n_transitions_stored :: "replay_buffer \<Rightarrow> nat" where
  "n_transitions_stored buf = length (storage buf)"

definition add_episode_batch :: "replay_buffer \<Rightarrow> transition list \<Rightarrow> replay_buffer" where
  "add_episode_batch buf path = buf\<lparr>storage := storage buf @ path\<rparr>"

text \<open>
  The dictionary of arrays that \<^verbatim>\<open>sample_transitions\<close> returns: one row per drawn
  transition under each of the keys read on lines 369-373.
\<close>

record batch =
  b_observations :: "vec list"
  b_next_observations :: "vec list"
  b_rewards :: "np_float list"
  b_actions :: "vec list"
  b_terminals :: "np_float list"

text \<open>
  Modelled from the spec: \<^verbatim>\<open>sample_transitions(batch_size)\<close> draws \<open>batch_size\<close> stored
  transitions uniformly at random with replacement. The random choice is the argument
  \<open>pick\<close> (the k-th draw, reduced into the range of stored positions). The batch refers to
  the stored transitions by the drawn positions; a transition drawn twice fills two rows, so
  the arrays of the batch are gathered row by row from the store and are arrays of their
  own. No position can be drawn from an empty store, and an array cannot have a negative
  size: both raise \<open>ValueError\<close>, as numpy's random generator does.
\<close>

definition sampled_indices :: "replay_buffer \<Rightarrow> int \<Rightarrow> (nat \<Rightarrow> nat) \<Rightarrow> nat list" where
  "sampled_indices buf batch_size pick =
     map (\<lambda>k. pick k mod length (storage buf)) [0..<nat batch_size]"

definition sample_transitions :: "replay_buffer \<Rightarrow> int \<Rightarrow> (nat \<Rightarrow> nat) \<Rightarrow> batch result" where
  "sample_transitions buf batch_size pick =
     (if batch_size < 0 \<or> storage buf = [] then Raised ValueError
      else
        (let drawn = map (\<lambda>i. storage buf ! i) (sampled_indices buf batch_size pick)
         in Returned
              \<lparr>b_observations = map observation drawn,
               b_next_observations = map next_observation drawn,
               b_rewards = map reward drawn,
               b_actions = map action drawn,
               b_terminals = map terminal drawn\<rparr>))"

record env_spec =
  action_space_high :: "real list"
  action_space_flat_dim :: nat
  observation_space_flat_dim :: nat
  max_episode_length :: nat

text \<open>The keyword arguments of \<^verbatim>\<open>DDPG.__init__\<close> (ddpg.py lines 60-88).\<close>

record 'n ddpg_args =
  arg_env_spec :: env_spec
  arg_networks :: 'n
  arg_replay_buffer :: replay_buffer
  steps_per_epoch :: int
  n_train_steps :: int
  start_steps :: int
  buffer_batch_size :: int
  min_buffer_size :: int
  target_update_tau :: real
  discount :: np_float
  policy_weight_decay :: real
  qf_weight_decay :: real
  num_evaluation_episodes :: int
  max_action :: "real option"
  reward_scale :: np_float
  exploration_policy_sigma :: real
  exploration_policy_clip :: real

text \<open>
  The attributes of a DDPG object; \<open>self_x\<close> is the source's \<^verbatim>\<open>self._x\<close>. The variables of
  the policy, the Q-function and their target clones live in TensorFlow and are the abstract
  value \<open>nets\<close>. \<open>tabular\<close> is dowel's table of recorded statistics. \<open>n_optimize\<close> and
  \<open>n_completed\<close> are not attributes of the source: the first counts the calls of
  \<^verbatim>\<open>optimize_policy\<close> and selects the random draws of the call, the second counts the calls
  that returned. Attributes that play no part in the methods embedded here (name, optimizer
  classes, learning rates, clip_return, clip_pos_returns, the sampler and worker classes)
  are left out. The reward scale and the discount, the operands of lines 375 and 390, are
  floats; the noise deviation, the clip bound and the hyperparameters that enter no
  arithmetic are finite reals.
\<close>

record 'n ddpg =
  self_max_action :: real
  self_tau :: real
  self_policy_weight_decay :: real
  self_qf_weight_decay :: real
  self_episode_policy_losses :: "np_float list"
  self_episode_qf_losses :: "np_float list"
  self_epoch_ys :: "np_float list list"
  self_epoch_qs :: "np_float list list"
  self_min_buffer_size :: int
  self_start_steps :: int
  self_steps_per_epoch :: int
  self_n_train_steps :: int
  self_buffer_batch_size :: int
  self_discount :: np_float
  self_reward_scale :: np_float
  self_num_evaluation_episodes :: int
  self_max_episode_length :: nat
  self_exploration_policy_sigma :: real
  self_exploration_policy_clip :: real
  self_act_dim :: nat
  self_obs_dim :: nat
  self_replay_buffer :: replay_buffer
  nets :: 'n
  tabular :: "(string \<times> np_float) list"
  n_optimize :: nat
  n_completed :: nat

text \<open>
  The functions that \<^verbatim>\<open>init_opt\<close> compiles from the TensorFlow graph (lines 139-241).
  TensorFlow is outside the sources, so they are parameters: a forward pass maps each row
  of a batch to one output row; a training function returns the updated variables with its
  loss (and, for the Q-function, the predicted values). Whatever a network computes may be
  a non-finite float.
\<close>

record 'n compiled =
  target_policy_f_prob_online :: "'n \<Rightarrow> vec \<Rightarrow> vec"
  target_qf_f_prob_online :: "'n \<Rightarrow> vec \<Rightarrow> vec \<Rightarrow> np_float"
  f_train_qf :: "'n \<Rightarrow> np_float list \<Rightarrow> vec list \<Rightarrow> vec list \<Rightarrow> 'n \<times> np_float \<times> np_float list"
  f_train_policy :: "'n \<Rightarrow> vec list \<Rightarrow> 'n \<times> np_float"
  f_update_target :: "'n \<Rightarrow> 'n"

text \<open>
  The random numbers one call of \<^verbatim>\<open>optimize_policy\<close> consumes: the positions drawn from
  the store and, for row \<open>i\<close> and component \<open>j\<close> of the target actions, the Gaussian draw of
  \<^verbatim>\<open>np.random.normal\<close> (finite, the standard deviation being finite).
\<close>

record draw =
  pick :: "nat \<Rightarrow> nat"
  normal :: "nat \<Rightarrow> nat \<Rightarrow> real"

datatype agent = UniformRandomPolicy | ExplorationPolicy

record sampler_call =
  call_itr :: nat
  call_env_steps :: nat
  call_agent :: agent

text \<open>
  Modelled from the spec: the runner (\<^verbatim>\<open>garage.trainer.Trainer\<close>, the base class of
  \<^verbatim>\<open>TFTrainer\<close>) is not among the sources. It holds the cycle counter \<open>step_itr\<close>, the total
  number of environment steps taken so far, the logging switch and the last collected
  episode batch; \<open>n_epochs\<close> is the number of epochs \<^verbatim>\<open>step_epochs()\<close> yields.
  \<open>sampler_calls\<close> is the history of the calls of \<^verbatim>\<open>obtain_episodes\<close>, each with the
  environment-step total at the time of the call.
\<close>

record runner =
  n_epochs :: nat
  step_itr :: nat
  total_env_steps :: nat
  enable_logging :: bool
  step_path :: "transition list"
  sampler_calls :: "sampler_call list"

text \<open>
  What the world outside the algorithm answers: the episode batch the sampler collects at
  cycle \<open>itr\<close> under the given acting policy, the returns \<^verbatim>\<open>log_performance\<close> computes from the
  evaluation episodes at cycle \<open>itr\<close>, and the random draws of the k-th optimisation step.
\<close>

record world =
  episodes :: "nat \<Rightarrow> agent \<Rightarrow> transition list"
  eval_returns :: "nat \<Rightarrow> np_float list"
  draws :: "nat \<Rightarrow> draw"

text \<open>
  Modelled from the spec: \<^verbatim>\<open>runner.obtain_episodes(itr, agent_update)\<close> returns the
  collected batch; every transition of the batch is one environment step.
\<close>

definition obtain_episodes :: "world \<Rightarrow> runner \<Rightarrow> nat \<Rightarrow> agent \<Rightarrow> runner \<times> transition list" where
  "obtain_episodes w r itr ag =
     (let path = episodes w itr ag
      in (r\<lparr>total_env_steps := total_env_steps r + length path,
            sampler_calls := sampler_calls r @
              [\<lparr>call_itr = itr, call_env_steps = total_env_steps r, call_agent = ag\<rparr>]\<rparr>,
          path))"

section \<open>numpy reductions\<close>

text \<open>
  \<^verbatim>\<open>np.mean\<close> is \<^verbatim>\<open>nan\<close> on an empty array. \<^verbatim>\<open>np.max\<close> raises \<open>ValueError\<close> on an empty
  array and is \<^verbatim>\<open>nan\<close> when an element is.
\<close>

definition np_mean :: "np_float list \<Rightarrow> np_float" where
  "np_mean xs = (if xs = [] then NaN else fdiv_count (foldl fadd (Finite 0) xs) (length xs))"

text \<open>\<^verbatim>\<open>np.mean(None)\<close> divides \<^verbatim>\<open>None\<close> by the element count and raises \<open>TypeError\<close>.\<close>

definition np_mean_opt :: "np_float list option \<Rightarrow> np_float result" where
  "np_mean_opt a = (case a of None \<Rightarrow> Raised TypeError | Some xs \<Rightarrow> Returned (np_mean xs))"

definition np_max :: "np_float list \<Rightarrow> np_float result" where
  "np_max xs = (case xs of [] \<Rightarrow> Raised ValueError | x # r \<Rightarrow> Returned (fold fmax r x))"

text \<open>\<^verbatim>\<open>np.clip(x, a_min, a_max)\<close> is \<^verbatim>\<open>minimum(a_max, maximum(x, a_min))\<close>.\<close>

definition np_clip :: "real \<Rightarrow> real \<Rightarrow> real \<Rightarrow> real" where
  "np_clip x a_min a_max = min a_max (max x a_min)"

section \<open>Construction\<close>

text \<open>
  \<^verbatim>\<open>DDPG.__init__\<close> (lines 89-136). \<^verbatim>\<open>env_spec.action_space.high[0]\<close> raises on an action
  space without a component. Line 124 rebinds the local name \<^verbatim>\<open>exploration_policy_clip\<close> to
  the tuple \<^verbatim>\<open>(0.5,)\<close> after the attribute has been assigned; the local is not read again.
\<close>

definition DDPG_init :: "'n ddpg_args \<Rightarrow> 'n ddpg result" where
  "DDPG_init a =
     (case action_space_high (arg_env_spec a) of
        [] \<Rightarrow> Raised IndexError
      | action_bound # _ \<Rightarrow>
          Returned
            \<lparr>self_max_action = (case max_action a of None \<Rightarrow> action_bound | Some m \<Rightarrow> m),
             self_tau = target_update_tau a,
             self_policy_weight_decay = policy_weight_decay a,
             self_qf_weight_decay = qf_weight_decay a,
             self_episode_policy_losses = [],
             self_episode_qf_losses = [],
             self_epoch_ys = [],
             self_epoch_qs = [],
             self_min_buffer_size = min_buffer_size a,
             self_start_steps = start_steps a,
             self_steps_per_epoch = steps_per_epoch a,
             self_n_train_steps = n_train_steps a,
             self_buffer_batch_size = buffer_batch_size a,
             self_discount = discount a,
             self_reward_scale = reward_scale a,
             self_num_evaluation_episodes = num_evaluation_episodes a,
             self_max_episode_length = max_episode_length (arg_env_spec a),
             self_exploration_policy_sigma = exploration_policy_sigma a,
             self_exploration_policy_clip = exploration_policy_clip a,
             self_act_dim = action_space_flat_dim (arg_env_spec a),
             self_obs_dim = observation_space_flat_dim (arg_env_spec a),
             self_replay_buffer = arg_replay_buffer a,
             nets = arg_networks a,
             tabular = [],
             n_optimize = 0,
             n_completed = 0\<rparr>)"

text \<open>The default values of the keyword arguments (lines 67-87).\<close>

definition default_args :: "env_spec \<Rightarrow> 'n \<Rightarrow> replay_buffer \<Rightarrow> 'n ddpg_args" where
  "default_args spec networks buf =
     \<lparr>arg_env_spec = spec, arg_networks = networks, arg_replay_buffer = buf,
      steps_per_epoch = 20, n_train_steps = 50, start_steps = 1000, buffer_batch_size = 64,
      min_buffer_size = 10000, target_update_tau = 0.01, discount = Finite 0.99,
      policy_weight_decay = 0, qf_weight_decay = 0, num_evaluation_episodes = 10,
      max_action = None, reward_scale = Finite 1, exploration_policy_sigma = 0.2,
      exploration_policy_clip = 0.5\<rparr>"

section \<open>One optimisation step\<close>

text \<open>
  Line 375, \<^verbatim>\<open>rewards *= self._reward_scale\<close>, multiplies the reward array of the batch in
  place; the rest of the step reads the scaled array.
\<close>

definition scaled_rewards :: "np_float \<Rightarrow> np_float list \<Rightarrow> np_float list" where
  "scaled_rewards scale rewards = map (\<lambda>r. fmul r scale) rewards"

text \<open>
  Lines 380-385: the target actions, with clipped Gaussian noise added. The noise has the
  shape of the target actions.
\<close>

definition clipped_noise :: "real \<Rightarrow> draw \<Rightarrow> vec list \<Rightarrow> real list list" where
  "clipped_noise clip dr target_actions =
     map (\<lambda>i. map (\<lambda>j. np_clip (normal dr i j) (- clip) clip)
                   [0..<length (target_actions ! i)])
         [0..<length target_actions]"

definition noisy_target_actions :: "'n compiled \<Rightarrow> 'n ddpg \<Rightarrow> draw \<Rightarrow> vec list \<Rightarrow> vec list" where
  "noisy_target_actions c d dr next_inputs =
     (let target_actions = map (target_policy_f_prob_online c (nets d)) next_inputs;
          noise = clipped_noise (self_exploration_policy_clip d) dr target_actions
      in map2 (map2 (\<lambda>a n. fadd a (Finite n))) target_actions noise)"

text \<open>Line 390: \<^verbatim>\<open>ys = rewards + (1.0 - terminals) * self._discount * target_qvals\<close>.\<close>

definition compute_ys :: "np_float \<Rightarrow> np_float list \<Rightarrow> np_float list \<Rightarrow> np_float list \<Rightarrow> np_float list" where
  "compute_ys disc rewards terminals target_qvals =
     map (\<lambda>(r, t, q). fadd r (fmul (fmul (fsub (Finite 1) t) disc) q))
         (zip rewards (zip terminals target_qvals))"

text \<open>
  \<^verbatim>\<open>optimize_policy\<close> (lines 356-397). It returns \<^verbatim>\<open>(qval_loss, ys, qval, action_loss)\<close>.
  \<^verbatim>\<open>np.random.normal\<close> raises \<open>ValueError\<close> on a negative standard deviation.
\<close>

definition optimize_policy ::
  "'n compiled \<Rightarrow> world \<Rightarrow> 'n ddpg \<Rightarrow>
   'n ddpg \<times> (np_float \<times> np_float list \<times> np_float list \<times> np_float) result" where
  "optimize_policy c w d0 =
     (let dr = draws w (n_optimize d0);
          d = d0\<lparr>n_optimize := n_optimize d0 + 1\<rparr>
      in case sample_transitions (self_replay_buffer d) (self_buffer_batch_size d) (pick dr) of
           Raised e \<Rightarrow> (d, Raised e)
         | Returned transitions \<Rightarrow>
            (let observations = b_observations transitions;
                 next_observations = b_next_observations transitions;
                 rewards = scaled_rewards (self_reward_scale d) (b_rewards transitions);
                 actions = b_actions transitions;
                 terminals = b_terminals transitions;
                 next_inputs = next_observations;
                 inputs = observations
             in if self_exploration_policy_sigma d < 0 then (d, Raised ValueError)
                else
                  (let target_actions = noisy_target_actions c d dr next_inputs;
                       target_qvals = map2 (target_qf_f_prob_online c (nets d)) next_inputs target_actions;
                       ys = compute_ys (self_discount d) rewards terminals target_qvals;
                       (nets1, qval_loss, qval) = f_train_qf c (nets d) ys inputs actions;
                       (nets2, action_loss) = f_train_policy c nets1 inputs;
                       nets3 = f_update_target c nets2
                   in (d\<lparr>nets := nets3, n_completed := n_completed d + 1\<rparr>,
                       Returned (qval_loss, ys, qval, action_loss)))))"

section \<open>The training loop\<close>

text \<open>
  Lines 337-354: the statistics recorded at the first cycle of an epoch. \<^verbatim>\<open>np.mean\<close> and
  \<^verbatim>\<open>np.max\<close> of a list of equally shaped arrays range over all their elements; \<^verbatim>\<open>np.max\<close>
  raises \<open>ValueError\<close> when there is none, after the entries before it have been recorded.
\<close>

definition record_statistics :: "real \<Rightarrow> 'n ddpg \<Rightarrow> 'n ddpg \<times> unit result" where
  "record_statistics epoch d =
     (let qs = concat (self_epoch_qs d);
          ys = concat (self_epoch_ys d);
          t1 = tabular d @
               [(''Epoch'', Finite epoch),
                (''Policy/AveragePolicyLoss'', np_mean (self_episode_policy_losses d)),
                (''QFunction/AverageQFunctionLoss'', np_mean (self_episode_qf_losses d)),
                (''QFunction/AverageQ'', np_mean qs)]
      in case np_max qs of
           Raised e \<Rightarrow> (d\<lparr>tabular := t1\<rparr>, Raised e)
         | Returned max_q \<Rightarrow>
            (let t2 = t1 @
                   [(''QFunction/MaxQ'', max_q),
                    (''QFunction/AverageAbsQ'', np_mean (map fabs qs)),
                    (''QFunction/AverageY'', np_mean ys)]
             in case np_max ys of
                  Raised e \<Rightarrow> (d\<lparr>tabular := t2\<rparr>, Raised e)
                | Returned max_y \<Rightarrow>
                    (d\<lparr>tabular := t2 @
                         [(''QFunction/MaxY'', max_y),
                          (''QFunction/AverageAbsY'', np_mean (map fabs ys))]\<rparr>,
                     Returned ())))"

text \<open>Lines 327-335: the loop \<^verbatim>\<open>for _ in range(self._n_train_steps)\<close>, by the steps left.\<close>

fun train_steps :: "'n compiled \<Rightarrow> world \<Rightarrow> nat \<Rightarrow> 'n ddpg \<Rightarrow> 'n ddpg \<times> unit result" where
  "train_steps c w 0 d = (d, Returned ())"
| "train_steps c w (Suc k) d =
     (if int (n_transitions_stored (self_replay_buffer d)) \<ge> self_min_buffer_size d
      then (case optimize_policy c w d of
              (d', Raised e) \<Rightarrow> (d', Raised e)
            | (d', Returned (qf_loss, y_s, qval, policy_loss)) \<Rightarrow>
                train_steps c w k
                  (d'\<lparr>self_episode_policy_losses := self_episode_policy_losses d' @ [policy_loss],
                      self_episode_qf_losses := self_episode_qf_losses d' @ [qf_loss],
                      self_epoch_ys := self_epoch_ys d' @ [y_s],
                      self_epoch_qs := self_epoch_qs d' @ [qval]\<rparr>))
      else train_steps c w k d)"

text \<open>\<^verbatim>\<open>train_once\<close> (lines 318-354).\<close>

definition train_once :: "'n compiled \<Rightarrow> world \<Rightarrow> nat \<Rightarrow> 'n ddpg \<Rightarrow> 'n ddpg \<times> unit result" where
  "train_once c w itr d =
     (if self_steps_per_epoch d = 0 then (d, Raised ZeroDivisionError)
      else
        (let epoch = real itr / real_of_int (self_steps_per_epoch d)
         in case train_steps c w (nat (self_n_train_steps d)) d of
              (d1, Raised e) \<Rightarrow> (d1, Raised e)
            | (d1, Returned u) \<Rightarrow>
                if int itr mod self_steps_per_epoch d1 = 0
                then (if int (n_transitions_stored (self_replay_buffer d1)) \<ge> self_min_buffer_size d1
                      then record_statistics epoch d1
                      else (d1, Returned ()))
                else (d1, Returned ())))"

text \<open>
  The state of the loops of \<^verbatim>\<open>train\<close>: the runner, the algorithm object and the local
  \<^verbatim>\<open>last_returns\<close>.
\<close>

record 'n loop_state =
  ls_runner :: runner
  ls_algo :: "'n ddpg"
  last_returns :: "np_float list option"

text \<open>The body of the inner loop (lines 287-314) for one value of \<^verbatim>\<open>cycle\<close>.\<close>

definition train_cycle :: "'n compiled \<Rightarrow> world \<Rightarrow> nat \<Rightarrow> 'n loop_state \<Rightarrow> 'n loop_state \<times> unit result" where
  "train_cycle c w cycle s =
     (let r = ls_runner s; d = ls_algo s;
          ag = (if int (step_itr r) \<ge> self_start_steps d then ExplorationPolicy
                else UniformRandomPolicy);
          (r1, path) = obtain_episodes w r (step_itr r) ag;
          r2 = r1\<lparr>step_path := path\<rparr>;
          d1 = d\<lparr>self_replay_buffer := add_episode_batch (self_replay_buffer d) (step_path r2)\<rparr>;
          (d2, res) = (if int (total_env_steps r2) \<ge> self_start_steps d1
                       then train_once c w (step_itr r2) d1
                       else (d1, Returned ()))
      in case res of
           Raised e \<Rightarrow> (s\<lparr>ls_runner := r2, ls_algo := d2\<rparr>, Raised e)
         | Returned u \<Rightarrow>
            (let (r3, lr) =
                   (if cycle = 0 \<and>
                       int (n_transitions_stored (self_replay_buffer d2)) \<ge> self_min_buffer_size d2
                    then (r2\<lparr>enable_logging := True\<rparr>, Some (eval_returns w (step_itr r2)))
                    else (r2, last_returns s))
             in (\<lparr>ls_runner = r3\<lparr>step_itr := step_itr r3 + 1\<rparr>, ls_algo = d2, last_returns = lr\<rparr>,
                 Returned ())))"

text \<open>\<^verbatim>\<open>for cycle in range(self._steps_per_epoch)\<close>, from \<open>cycle\<close> with \<open>k\<close> cycles left.\<close>

fun train_cycles :: "'n compiled \<Rightarrow> world \<Rightarrow> nat \<Rightarrow> nat \<Rightarrow> 'n loop_state \<Rightarrow> 'n loop_state \<times> unit result" where
  "train_cycles c w cycle 0 s = (s, Returned ())"
| "train_cycles c w cycle (Suc k) s =
     (case train_cycle c w cycle s of
        (s', Raised e) \<Rightarrow> (s', Raised e)
      | (s', Returned u) \<Rightarrow> train_cycles c w (Suc cycle) k s')"

text \<open>\<^verbatim>\<open>for _ in runner.step_epochs()\<close>, with \<open>k\<close> epochs left.\<close>

fun train_epochs :: "'n compiled \<Rightarrow> world \<Rightarrow> nat \<Rightarrow> 'n loop_state \<Rightarrow> 'n loop_state \<times> unit result" where
  "train_epochs c w 0 s = (s, Returned ())"
| "train_epochs c w (Suc k) s =
     (case train_cycles c w 0 (nat (self_steps_per_epoch (ls_algo s))) s of
        (s', Raised e) \<Rightarrow> (s', Raised e)
      | (s', Returned u) \<Rightarrow> train_epochs c w k s')"

text \<open>
  \<^verbatim>\<open>train\<close> (lines 269-316): the final state and the returned value or the exception. The
  environment copy kept in \<^verbatim>\<open>self._eval_env\<close> serves the evaluation only, whose outcome is
  the world's \<open>eval_returns\<close>.
\<close>

definition train :: "'n compiled \<Rightarrow> world \<Rightarrow> runner \<Rightarrow> 'n ddpg \<Rightarrow> 'n loop_state \<times> np_float result" where
  "train c w r d =
     (let s0 = \<lparr>ls_runner = r\<lparr>enable_logging := False\<rparr>, ls_algo = d, last_returns = None\<rparr>
      in case train_epochs c w (n_epochs r) s0 of
           (s, Raised e) \<Rightarrow> (s, Raised e)
         | (s, Returned u) \<Rightarrow> (s, np_mean_opt (last_returns s)))"

section \<open>Vocabulary of the proofs\<close>

text \<open>The attributes that no method assigns after construction keep their values.\<close>

definition config_eq :: "'n ddpg \<Rightarrow> 'n ddpg \<Rightarrow> bool" where
  "config_eq d d' \<longleftrightarrow>
     self_min_buffer_size d' = self_min_buffer_size d \<and>
     self_start_steps d' = self_start_steps d \<and>
     self_steps_per_epoch d' = self_steps_per_epoch d \<and>
     self_n_train_steps d' = self_n_train_steps d \<and>
     self_buffer_batch_size d' = self_buffer_batch_size d \<and>
     self_discount d' = self_discount d \<and>
     self_reward_scale d' = self_reward_scale d \<and>
     self_exploration_policy_sigma d' = self_exploration_policy_sigma d \<and>
     self_exploration_policy_clip d' = self_exploration_policy_clip d"

text \<open>Nothing but sampling and storing has happened between two loop states.\<close>

definition idle_rel :: "'n loop_state \<Rightarrow> 'n loop_state \<Rightarrow> bool" where
  "idle_rel s s' \<longleftrightarrow>
     n_optimize (ls_algo s') = n_optimize (ls_algo s) \<and>
     nets (ls_algo s') = nets (ls_algo s) \<and>
     self_episode_policy_losses (ls_algo s') = self_episode_policy_losses (ls_algo s) \<and>
     self_episode_qf_losses (ls_algo s') = self_episode_qf_losses (ls_algo s) \<and>
     self_epoch_ys (ls_algo s') = self_epoch_ys (ls_algo s) \<and>
     self_epoch_qs (ls_algo s') = self_epoch_qs (ls_algo s) \<and>
     tabular (ls_algo s') = tabular (ls_algo s) \<and>
     last_returns s' = last_returns s"

text \<open>
  What every stretch of the training loop guarantees: the configuration is kept, the store
  does not shrink, and a stretch that ends below \<open>min_buffer_size\<close> was idle and raised
  nothing.
\<close>

definition run_rel :: "'n loop_state \<Rightarrow> 'n loop_state \<Rightarrow> unit result \<Rightarrow> bool" where
  "run_rel s s' res \<longleftrightarrow>
     config_eq (ls_algo s) (ls_algo s') \<and>
     n_epochs (ls_runner s') = n_epochs (ls_runner s) \<and>
     length (storage (self_replay_buffer (ls_algo s))) \<le> length (storage (self_replay_buffer (ls_algo s'))) \<and>
     (int (length (storage (self_replay_buffer (ls_algo s')))) < self_min_buffer_size (ls_algo s) \<longrightarrow>
        idle_rel s s' \<and> res = Returned ())"

text \<open>
  The accumulators of \<open>d'\<close> are those of \<open>d\<close> with one entry appended to each for every
  call of \<^verbatim>\<open>optimize_policy\<close> that returned in between.
\<close>

definition acc_rel :: "'n ddpg \<Rightarrow> 'n ddpg \<Rightarrow> bool" where
  "acc_rel d d' \<longleftrightarrow>
     (\<exists>pl ql ys qs.
        self_episode_policy_losses d' = self_episode_policy_losses d @ pl \<and>
        self_episode_qf_losses d' = self_episode_qf_losses d @ ql \<and>
        self_epoch_ys d' = self_epoch_ys d @ ys \<and>
        self_epoch_qs d' = self_epoch_qs d @ qs \<and>
        length pl + n_completed d = n_completed d' \<and>
        length ql = length pl \<and> length ys = length pl \<and> length qs = length pl)"

text \<open>The store of \<open>buf'\<close> is that of \<open>buf\<close> with transitions added at the end.\<close>

definition grows :: "replay_buffer \<Rightarrow> replay_buffer \<Rightarrow> bool" where
  "grows buf buf' \<longleftrightarrow> (\<exists>new. storage buf' = storage buf @ new)"

text \<open>
  The cycle index and the acting policy of \<open>m\<close> consecutive calls of the sampler, the first
  at cycle \<open>itr0\<close>, when the policy is chosen by comparing the cycle index with \<open>start\<close>.
\<close>

definition expected_calls :: "int \<Rightarrow> nat \<Rightarrow> nat \<Rightarrow> (nat \<times> agent) list" where
  "expected_calls start itr0 m =
     map (\<lambda>j. (itr0 + j, if start \<le> int (itr0 + j) then ExplorationPolicy else UniformRandomPolicy))
         [0..<m]"

section \<open>Frame lemmas\<close>

lemma config_eq_refl [simp]: "config_eq d d"
  by (simp add: config_eq_def)

lemma config_eq_trans: "config_eq a b \<Longrightarrow> config_eq b c \<Longrightarrow> config_eq a c"
  by (simp add: config_eq_def)

lemma acc_rel_refl [simp]: "acc_rel d d"
  by (simp add: acc_rel_def)

lemma acc_rel_trans:
  assumes "acc_rel a b" and "acc_rel b c"
  shows "acc_rel a c"
proof -
  from assms(1) obtain pl ql ys qs where 1:
    "self_episode_policy_losses b = self_episode_policy_losses a @ pl"
    "self_episode_qf_losses b = self_episode_qf_losses a @ ql"
    "self_epoch_ys b = self_epoch_ys a @ ys"
    "self_epoch_qs b = self_epoch_qs a @ qs"
    "length pl + n_completed a = n_completed b"
    "length ql = length pl" "length ys = length pl" "length qs = length pl"
    unfolding acc_rel_def by blast
  from assms(2) obtain pl' ql' ys' qs' where 2:
    "self_episode_policy_losses c = self_episode_policy_losses b @ pl'"
    "self_episode_qf_losses c = self_episode_qf_losses b @ ql'"
    "self_epoch_ys c = self_epoch_ys b @ ys'"
    "self_epoch_qs c = self_epoch_qs b @ qs'"
    "length pl' + n_completed b = n_completed c"
    "length ql' = length pl'" "length ys' = length pl'" "length qs' = length pl'"
    unfolding acc_rel_def by blast
  show ?thesis
    unfolding acc_rel_def
    by (rule exI[of _ "pl @ pl'"], rule exI[of _ "ql @ ql'"], rule exI[of _ "ys @ ys'"],
        rule exI[of _ "qs @ qs'"])
      (use 1 2 in simp)
qed

lemma grows_refl [simp]: "grows b b"
  by (simp add: grows_def)


lemma optimize_policy_frame:
  assumes "optimize_policy c w d = (d', res)"
  shows "config_eq d d'"
    and "self_replay_buffer d' = self_replay_buffer d"
    and "n_optimize d' = Suc (n_optimize d)"
    and "self_episode_policy_losses d' = self_episode_policy_losses d"
    and "self_episode_qf_losses d' = self_episode_qf_losses d"
    and "self_epoch_ys d' = self_epoch_ys d"
    and "self_epoch_qs d' = self_epoch_qs d"
    and "tabular d' = tabular d"
    and "n_completed d' = (if is_Returned res then Suc (n_completed d) else n_completed d)"
  using assms
  by (auto simp: optimize_policy_def Let_def config_eq_def split: result.splits prod.splits if_splits)

lemma record_statistics_frame:
  assumes "record_statistics e d = (d', res)"
  shows "config_eq d d'"
    and "self_replay_buffer d' = self_replay_buffer d"
    and "n_optimize d' = n_optimize d"
    and "nets d' = nets d"
    and "self_episode_policy_losses d' = self_episode_policy_losses d"
    and "self_episode_qf_losses d' = self_episode_qf_losses d"
    and "self_epoch_ys d' = self_epoch_ys d"
    and "self_epoch_qs d' = self_epoch_qs d"
    and "n_completed d' = n_completed d"
  using assms
  by (auto simp: record_statistics_def Let_def config_eq_def split: result.splits)

section \<open>The optimisation step\<close>

lemma sample_ok:
  "storage buf \<noteq> [] \<Longrightarrow> 0 \<le> n \<Longrightarrow>
   sample_transitions buf n p =
     Returned
       \<lparr>b_observations = map (\<lambda>i. observation (storage buf ! i)) (sampled_indices buf n p),
        b_next_observations = map (\<lambda>i. next_observation (storage buf ! i)) (sampled_indices buf n p),
        b_rewards = map (\<lambda>i. reward (storage buf ! i)) (sampled_indices buf n p),
        b_actions = map (\<lambda>i. action (storage buf ! i)) (sampled_indices buf n p),
        b_terminals = map (\<lambda>i. terminal (storage buf ! i)) (sampled_indices buf n p)\<rparr>"
  by (simp add: sample_transitions_def Let_def comp_def)

lemma length_sampled_indices [simp]: "length (sampled_indices buf n p) = nat n"
  by (simp add: sampled_indices_def)

lemma length_noisy [simp]: "length (noisy_target_actions c d dr xs) = length xs"
  by (simp add: noisy_target_actions_def clipped_noise_def Let_def)

lemma length_compute_ys:
  "length (compute_ys g rs ts qs) = min (length rs) (min (length ts) (length qs))"
  by (simp add: compute_ys_def)

lemma nth_compute_ys:
  "k < length rs \<Longrightarrow> k < length ts \<Longrightarrow> k < length qs \<Longrightarrow>
   compute_ys g rs ts qs ! k = fadd (rs ! k) (fmul (fmul (fsub (Finite 1) (ts ! k)) g) (qs ! k))"
  by (simp add: compute_ys_def)

text \<open>
  Row \<open>i\<close> of the noisy target actions, component by component: the target policy's output
  plus the Gaussian draw, brought into the band between \<open>- clip\<close> and \<open>clip\<close>.
\<close>

lemma nth_noisy_target_actions:
  assumes "i < length xs"
  shows "noisy_target_actions c d dr xs ! i =
         map (\<lambda>j. fadd (target_policy_f_prob_online c (nets d) (xs ! i) ! j)
                     (Finite (min (self_exploration_policy_clip d)
                                  (max (normal dr i j) (- self_exploration_policy_clip d)))))
             [0..<length (target_policy_f_prob_online c (nets d) (xs ! i))]"
  using assms
  by (intro nth_equalityI)
     (simp_all add: noisy_target_actions_def clipped_noise_def Let_def np_clip_def)

lemma optimize_policy_returns:
  assumes "storage (self_replay_buffer d) \<noteq> []"
    and "0 \<le> self_buffer_batch_size d"
    and "0 \<le> self_exploration_policy_sigma d"
  shows "\<exists>d' out. optimize_policy c w d = (d', Returned out)"
  using assms
  by (simp add: optimize_policy_def Let_def sample_transitions_def split: prod.splits)

text \<open>The targets that a successful step hands to the Q-function's training function.\<close>

lemma optimize_policy_ys:
  assumes "storage (self_replay_buffer d) \<noteq> []"
    and "0 \<le> self_buffer_batch_size d"
    and "0 \<le> self_exploration_policy_sigma d"
  shows "\<exists>d' qf_loss ys qval policy_loss.
     optimize_policy c w d = (d', Returned (qf_loss, ys, qval, policy_loss)) \<and>
     length ys = nat (self_buffer_batch_size d) \<and>
     (\<forall>k < length ys.
        (let dr = draws w (n_optimize d);
             t = storage (self_replay_buffer d) !
                   (sampled_indices (self_replay_buffer d) (self_buffer_batch_size d) (pick dr) ! k);
             out = target_policy_f_prob_online c (nets d) (next_observation t);
             target_action =
               map (\<lambda>j. fadd (out ! j)
                          (Finite (min (self_exploration_policy_clip d)
                                       (max (normal dr k j) (- self_exploration_policy_clip d)))))
                   [0..<length out];
             target_q = target_qf_f_prob_online c (nets d) (next_observation t) target_action
         in ys ! k = fadd (fmul (reward t) (self_reward_scale d))
                          (fmul (fmul (fsub (Finite 1) (terminal t)) (self_discount d)) target_q)))"
  using assms
  apply (simp add: optimize_policy_def Let_def sample_ok split: prod.splits)
  apply (simp add: length_compute_ys nth_compute_ys scaled_rewards_def nth_noisy_target_actions)
  done

section \<open>Claims about the optimisation step\<close>

lemmas step_defs = optimize_policy_def sample_transitions_def sampled_indices_def
  scaled_rewards_def noisy_target_actions_def clipped_noise_def np_clip_def
  compute_ys_def fsub_def inf_times_def DDPG_init_def default_args_def Let_def

lemma fadd_zero_right: "fadd x (Finite 0) = x"
  by (cases x) simp_all

lemma terminal_bootstrap_zero:
  "is_finite g \<Longrightarrow> is_finite q \<Longrightarrow> fmul (fmul (fsub (Finite 1) (Finite 1)) g) q = Finite 0"
  by (cases g; cases q) (simp_all add: fsub_def)

text \<open>
  C1, as the specification states it: for a transition with \<open>terminal = 1\<close> the target
  would be the scaled reward whatever the target Q-value is. Line 390 multiplies the zero
  of \<open>1 - terminal\<close> by the target Q-value in float arithmetic, and \<open>0 * inf\<close> is \<^verbatim>\<open>nan\<close>:
  with a stored reward of 3, \<open>reward_scale = 2\<close>, \<open>terminal = 1\<close> and a target Q-function
  that answers \<^verbatim>\<open>inf\<close>, the target is \<^verbatim>\<open>nan\<close>, not 6.
\<close>

theorem C1_terminal_target_is_nan_for_infinite_target_q:
  "fst (snd (the_value (snd (optimize_policy
       \<lparr>target_policy_f_prob_online = (\<lambda>n ob. ob),
         target_qf_f_prob_online = (\<lambda>n ob ac. PInf),
         f_train_qf = (\<lambda>n ys obs acs. (n, Finite 0, ys)),
         f_train_policy = (\<lambda>n obs. (n, Finite 0)),
         f_update_target = (\<lambda>n. n)\<rparr>
       \<lparr>episodes = (\<lambda>itr ag. [\<lparr>observation = [Finite 0], action = [Finite 0], reward = Finite 1,
             next_observation = [Finite 0], terminal = Finite 0\<rparr>]),
         eval_returns = (\<lambda>itr. [Finite 1]),
         draws = (\<lambda>k. \<lparr>pick = (\<lambda>j. 0), normal = (\<lambda>i j. 0)\<rparr>)\<rparr>
       (the_value (DDPG_init
          ((default_args
            \<lparr>action_space_high = [1], action_space_flat_dim = 1, observation_space_flat_dim = 1,
            max_episode_length = 10\<rparr>
            () \<lparr>storage = [\<lparr>observation = [Finite 0], action = [Finite 0], reward = Finite 3,
             next_observation = [Finite 0], terminal = Finite 1\<rparr>]\<rparr>)
            \<lparr>buffer_batch_size := 1, reward_scale := Finite 2\<rparr>))))))) = [NaN] \<and>
   map (\<lambda>t. fmul (reward t) (Finite 2))
       (storage (self_replay_buffer
       (the_value (DDPG_init
          ((default_args
            \<lparr>action_space_high = [1], action_space_flat_dim = 1, observation_space_flat_dim = 1,
            max_episode_length = 10\<rparr>
            () \<lparr>storage = [\<lparr>observation = [Finite 0], action = [Finite 0], reward = Finite 3,
             next_observation = [Finite 0], terminal = Finite 1\<rparr>]\<rparr>)
            \<lparr>buffer_batch_size := 1, reward_scale := Finite 2\<rparr>))))) = [Finite 6]"
  by (simp add: step_defs)

text \<open>
  C1, amended. Whenever a step can sample (the store is not empty, the batch size and the
  noise deviation are not negative), \<^verbatim>\<open>optimize_policy\<close> returns, and the regression target
  of every sampled transition is, in float arithmetic,
  \<open>reward * reward_scale + (1 - terminal) * discount * target_q\<close>, where \<open>target_q\<close> is the
  target Q-function at the next observation and the noisy target action. For a transition
  with \<open>terminal = 1\<close> the target is the scaled reward exactly, whatever finite value the
  target Q-function answers, the discount being finite.
\<close>

theorem C1_regression_target:
  assumes "storage (self_replay_buffer d) \<noteq> []"
    and "0 \<le> self_buffer_batch_size d"
    and "0 \<le> self_exploration_policy_sigma d"
  shows "\<exists>d' qf_loss ys qval policy_loss.
     optimize_policy c w d = (d', Returned (qf_loss, ys, qval, policy_loss)) \<and>
     length ys = nat (self_buffer_batch_size d) \<and>
     (\<forall>k < length ys.
        (let dr = draws w (n_optimize d);
             t = storage (self_replay_buffer d) !
                   (sampled_indices (self_replay_buffer d) (self_buffer_batch_size d) (pick dr) ! k);
             out = target_policy_f_prob_online c (nets d) (next_observation t);
             target_action =
               map (\<lambda>j. fadd (out ! j)
                          (Finite (min (self_exploration_policy_clip d)
                                       (max (normal dr k j) (- self_exploration_policy_clip d)))))
                   [0..<length out];
             target_q = target_qf_f_prob_online c (nets d) (next_observation t) target_action
         in ys ! k = fadd (fmul (reward t) (self_reward_scale d))
                          (fmul (fmul (fsub (Finite 1) (terminal t)) (self_discount d)) target_q) \<and>
            (terminal t = Finite 1 \<and> is_finite (self_discount d) \<and> is_finite target_q \<longrightarrow>
               ys ! k = fmul (reward t) (self_reward_scale d))))"
proof -
  from optimize_policy_ys[OF assms, of c w]
  obtain d' qf_loss ys qval policy_loss where
    o: "optimize_policy c w d = (d', Returned (qf_loss, ys, qval, policy_loss))"
    and l: "length ys = nat (self_buffer_batch_size d)"
    and y: "\<forall>k < length ys.
        (let dr = draws w (n_optimize d);
             t = storage (self_replay_buffer d) !
                   (sampled_indices (self_replay_buffer d) (self_buffer_batch_size d) (pick dr) ! k);
             out = target_policy_f_prob_online c (nets d) (next_observation t);
             target_action =
               map (\<lambda>j. fadd (out ! j)
                          (Finite (min (self_exploration_policy_clip d)
                                       (max (normal dr k j) (- self_exploration_policy_clip d)))))
                   [0..<length out];
             target_q = target_qf_f_prob_online c (nets d) (next_observation t) target_action
         in ys ! k = fadd (fmul (reward t) (self_reward_scale d))
                          (fmul (fmul (fsub (Finite 1) (terminal t)) (self_discount d)) target_q))"
    by (elim exE conjE)
  from y have "\<forall>k < length ys.
        (let dr = draws w (n_optimize d);
             t = storage (self_replay_buffer d) !
                   (sampled_indices (self_replay_buffer d) (self_buffer_batch_size d) (pick dr) ! k);
             out = target_policy_f_prob_online c (nets d) (next_observation t);
             target_action =
               map (\<lambda>j. fadd (out ! j)
                          (Finite (min (self_exploration_policy_clip d)
                                       (max (normal dr k j) (- self_exploration_policy_clip d)))))
                   [0..<length out];
             target_q = target_qf_f_prob_online c (nets d) (next_observation t) target_action
         in ys ! k = fadd (fmul (reward t) (self_reward_scale d))
                          (fmul (fmul (fsub (Finite 1) (terminal t)) (self_discount d)) target_q) \<and>
            (terminal t = Finite 1 \<and> is_finite (self_discount d) \<and> is_finite target_q \<longrightarrow>
               ys ! k = fmul (reward t) (self_reward_scale d)))"
    by (simp add: Let_def terminal_bootstrap_zero fadd_zero_right)
  with o l show ?thesis by blast
qed

theorem C1_regression_target_witness:
  "\<exists>d' qf_loss ys qval policy_loss.
     optimize_policy
       \<lparr>target_policy_f_prob_online = (\<lambda>n ob. ob),
         target_qf_f_prob_online = (\<lambda>n ob ac. Finite 5),
         f_train_qf = (\<lambda>n ys obs acs. (n, Finite 0, ys)),
         f_train_policy = (\<lambda>n obs. (n, Finite 0)),
         f_update_target = (\<lambda>n. n)\<rparr>
       \<lparr>episodes = (\<lambda>itr ag. [\<lparr>observation = [Finite 0], action = [Finite 0], reward = Finite 1,
             next_observation = [Finite 0], terminal = Finite 0\<rparr>]),
         eval_returns = (\<lambda>itr. [Finite 1]),
         draws = (\<lambda>k. \<lparr>pick = (\<lambda>j. 0), normal = (\<lambda>i j. 0)\<rparr>)\<rparr>
       (the_value (DDPG_init
          ((default_args
            \<lparr>action_space_high = [1], action_space_flat_dim = 1, observation_space_flat_dim = 1,
            max_episode_length = 10\<rparr>
            () \<lparr>storage = [\<lparr>observation = [Finite 0], action = [Finite 0], reward = Finite 3,
             next_observation = [Finite 0], terminal = Finite 1\<rparr>]\<rparr>)
            \<lparr>buffer_batch_size := 1, reward_scale := Finite 2\<rparr>)))
     = (d', Returned (qf_loss, ys, qval, policy_loss)) \<and> length ys = 1 \<and> ys ! 0 = Finite 6"
  (is "\<exists>d' qf_loss ys qval policy_loss. optimize_policy ?c ?w ?d = _ \<and> _ \<and> _")
proof -
  have h: "storage (self_replay_buffer ?d) \<noteq> []" "0 \<le> self_buffer_batch_size ?d"
    "0 \<le> self_exploration_policy_sigma ?d"
    by (simp_all add: DDPG_init_def default_args_def)
  from C1_regression_target[OF h, of ?c ?w]
  obtain d' qf_loss ys qval policy_loss where
    o: "optimize_policy ?c ?w ?d = (d', Returned (qf_loss, ys, qval, policy_loss))"
    and l: "length ys = nat (self_buffer_batch_size ?d)"
    and y: "\<forall>k < length ys.
        (let dr = draws ?w (n_optimize ?d);
             t = storage (self_replay_buffer ?d) !
                   (sampled_indices (self_replay_buffer ?d) (self_buffer_batch_size ?d) (pick dr) ! k);
             out = target_policy_f_prob_online ?c (nets ?d) (next_observation t);
             target_action =
               map (\<lambda>j. fadd (out ! j)
                          (Finite (min (self_exploration_policy_clip ?d)
                                       (max (normal dr k j) (- self_exploration_policy_clip ?d)))))
                   [0..<length out];
             target_q = target_qf_f_prob_online ?c (nets ?d) (next_observation t) target_action
         in ys ! k = fadd (fmul (reward t) (self_reward_scale ?d))
                          (fmul (fmul (fsub (Finite 1) (terminal t)) (self_discount ?d)) target_q) \<and>
            (terminal t = Finite 1 \<and> is_finite (self_discount ?d) \<and> is_finite target_q \<longrightarrow>
               ys ! k = fmul (reward t) (self_reward_scale ?d)))"
    by (elim exE conjE)
  from l have l1: "length ys = 1"
    by (simp add: DDPG_init_def default_args_def)
  with y have "ys ! 0 = Finite 6"
    by (simp add: DDPG_init_def default_args_def sampled_indices_def Let_def fsub_def)
  with o l1 show ?thesis by blast
qed

text \<open>
  C2, as the specification states it: the scenario \<open>discount = 0.99\<close>, \<open>reward_scale = 2\<close>,
  \<open>r = 1\<close>, \<open>terminal = 0\<close>, \<open>target_q = 5\<close> would give the target 11.9. The program scales
  the reward only, so the target is \<open>2 + 0.99 * 5 = 6.95\<close>.
\<close>

theorem C2_target_is_not_11_9:
  "fst (snd (the_value (snd (optimize_policy
       \<lparr>target_policy_f_prob_online = (\<lambda>n ob. ob),
         target_qf_f_prob_online = (\<lambda>n ob ac. Finite 5),
         f_train_qf = (\<lambda>n ys obs acs. (n, Finite 0, ys)),
         f_train_policy = (\<lambda>n obs. (n, Finite 0)),
         f_update_target = (\<lambda>n. n)\<rparr>
       \<lparr>episodes = (\<lambda>itr ag. [\<lparr>observation = [Finite 0], action = [Finite 0], reward = Finite 1,
             next_observation = [Finite 0], terminal = Finite 0\<rparr>]),
         eval_returns = (\<lambda>itr. [Finite 1]),
         draws = (\<lambda>k. \<lparr>pick = (\<lambda>j. 0), normal = (\<lambda>i j. 0)\<rparr>)\<rparr>
       (the_value (DDPG_init
          ((default_args
            \<lparr>action_space_high = [1], action_space_flat_dim = 1, observation_space_flat_dim = 1,
            max_episode_length = 10\<rparr>
            () \<lparr>storage = [\<lparr>observation = [Finite 0], action = [Finite 0], reward = Finite 1,
             next_observation = [Finite 0], terminal = Finite 0\<rparr>]\<rparr>)
            \<lparr>buffer_batch_size := 1, reward_scale := Finite 2\<rparr>))))))) = [Finite 6.95] \<and>
   fst (snd (the_value (snd (optimize_policy
       \<lparr>target_policy_f_prob_online = (\<lambda>n ob. ob),
         target_qf_f_prob_online = (\<lambda>n ob ac. Finite 5),
         f_train_qf = (\<lambda>n ys obs acs. (n, Finite 0, ys)),
         f_train_policy = (\<lambda>n obs. (n, Finite 0)),
         f_update_target = (\<lambda>n. n)\<rparr>
       \<lparr>episodes = (\<lambda>itr ag. [\<lparr>observation = [Finite 0], action = [Finite 0], reward = Finite 1,
             next_observation = [Finite 0], terminal = Finite 0\<rparr>]),
         eval_returns = (\<lambda>itr. [Finite 1]),
         draws = (\<lambda>k. \<lparr>pick = (\<lambda>j. 0), normal = (\<lambda>i j. 0)\<rparr>)\<rparr>
       (the_value (DDPG_init
          ((default_args
            \<lparr>action_space_high = [1], action_space_flat_dim = 1, observation_space_flat_dim = 1,
            max_episode_length = 10\<rparr>
            () \<lparr>storage = [\<lparr>observation = [Finite 0], action = [Finite 0], reward = Finite 1,
             next_observation = [Finite 0], terminal = Finite 0\<rparr>]\<rparr>)
            \<lparr>buffer_batch_size := 1, reward_scale := Finite 2\<rparr>))))))) \<noteq> [Finite 11.9]"
  by (simp add: step_defs)

text \<open>
  C2, amended. With \<open>discount = 0.99\<close> and \<open>reward_scale = 2\<close>, for a single stored
  transition with raw reward 1 and \<open>terminal = 0\<close> and a target Q-value of 5, the target
  computed by \<^verbatim>\<open>optimize_policy\<close> is \<open>2 + 0.99 * 5 = 6.95\<close>: the reward is scaled before
  the target is computed, and the discounted bootstrap term is not scaled.
\<close>

theorem C2_target_for_scaled_reward:
  assumes "storage (self_replay_buffer d) = [t]"
    and "reward t = Finite 1" and "terminal t = Finite 0"
    and "self_discount d = Finite 0.99" and "self_reward_scale d = Finite 2"
    and "self_buffer_batch_size d = 1"
    and "0 \<le> self_exploration_policy_sigma d"
    and "\<forall>n ob ac. target_qf_f_prob_online c n ob ac = Finite 5"
  shows "\<exists>d' qf_loss qval policy_loss.
     optimize_policy c w d = (d', Returned (qf_loss, [Finite 6.95], qval, policy_loss))"
proof -
  have h: "storage (self_replay_buffer d) \<noteq> []" "0 \<le> self_buffer_batch_size d"
    using assms(1,6) by simp_all
  from optimize_policy_ys[OF h assms(7), of c w]
  obtain d' qf_loss ys qval policy_loss where
    o: "optimize_policy c w d = (d', Returned (qf_loss, ys, qval, policy_loss))"
    and l: "length ys = nat (self_buffer_batch_size d)"
    and y: "\<forall>k < length ys.
        (let dr = draws w (n_optimize d);
             t = storage (self_replay_buffer d) !
                   (sampled_indices (self_replay_buffer d) (self_buffer_batch_size d) (pick dr) ! k);
             out = target_policy_f_prob_online c (nets d) (next_observation t);
             target_action =
               map (\<lambda>j. fadd (out ! j)
                          (Finite (min (self_exploration_policy_clip d)
                                       (max (normal dr k j) (- self_exploration_policy_clip d)))))
                   [0..<length out];
             target_q = target_qf_f_prob_online c (nets d) (next_observation t) target_action
         in ys ! k = fadd (fmul (reward t) (self_reward_scale d))
                          (fmul (fmul (fsub (Finite 1) (terminal t)) (self_discount d)) target_q))"
    by (elim exE conjE)
  from l assms(6) have l1: "length ys = 1" by simp
  with y have "ys ! 0 = Finite 6.95"
    using assms by (simp add: Let_def sampled_indices_def fsub_def)
  with l1 have "ys = [Finite 6.95]" by (cases ys) simp_all
  with o show ?thesis by blast
qed

theorem C2_target_for_scaled_reward_witness:
  "\<exists>d' qf_loss qval policy_loss.
     optimize_policy
       \<lparr>target_policy_f_prob_online = (\<lambda>n ob. ob),
         target_qf_f_prob_online = (\<lambda>n ob ac. Finite 5),
         f_train_qf = (\<lambda>n ys obs acs. (n, Finite 0, ys)),
         f_train_policy = (\<lambda>n obs. (n, Finite 0)),
         f_update_target = (\<lambda>n. n)\<rparr>
       \<lparr>episodes = (\<lambda>itr ag. [\<lparr>observation = [Finite 0], action = [Finite 0], reward = Finite 1,
             next_observation = [Finite 0], terminal = Finite 0\<rparr>]),
         eval_returns = (\<lambda>itr. [Finite 1]),
         draws = (\<lambda>k. \<lparr>pick = (\<lambda>j. 0), normal = (\<lambda>i j. 0)\<rparr>)\<rparr>
       (the_value (DDPG_init
          ((default_args
            \<lparr>action_space_high = [1], action_space_flat_dim = 1, observation_space_flat_dim = 1,
            max_episode_length = 10\<rparr>
            () \<lparr>storage = [\<lparr>observation = [Finite 0], action = [Finite 0], reward = Finite 1,
             next_observation = [Finite 0], terminal = Finite 0\<rparr>]\<rparr>)
            \<lparr>buffer_batch_size := 1, reward_scale := Finite 2\<rparr>)))
     = (d', Returned (qf_loss, [Finite 6.95], qval, policy_loss))"
  (is "\<exists>d' qf_loss qval policy_loss. optimize_policy ?c ?w ?d = _")
proof -
  have h: "storage (self_replay_buffer ?d) = [\<lparr>observation = [Finite 0], action = [Finite 0], reward = Finite 1,
             next_observation = [Finite 0], terminal = Finite 0\<rparr>]"
    "reward \<lparr>observation = [Finite 0], action = [Finite 0], reward = Finite 1,
             next_observation = [Finite 0], terminal = Finite 0\<rparr> = Finite 1"
    "terminal \<lparr>observation = [Finite 0], action = [Finite 0], reward = Finite 1,
             next_observation = [Finite 0], terminal = Finite 0\<rparr> = Finite 0"
    "self_discount ?d = Finite 0.99" "self_reward_scale ?d = Finite 2" "self_buffer_batch_size ?d = 1"
    "0 \<le> self_exploration_policy_sigma ?d"
    "\<forall>n ob ac. target_qf_f_prob_online ?c n ob ac = Finite 5"
    by (simp_all add: DDPG_init_def default_args_def)
  from C2_target_for_scaled_reward[OF h, of ?w] show ?thesis .
qed




section \<open>Claims about construction\<close>

text \<open>
  C7, as the specification states it: a configuration with
  \<open>min_buffer_size < buffer_batch_size\<close> or with \<open>target_update_tau\<close> outside \<open>(0, 1]\<close> would
  make the constructor raise. It returns an instance holding these values.
\<close>

theorem C7_invalid_hyperparameters_accepted:
  "is_Returned (DDPG_init
      ((default_args
            \<lparr>action_space_high = [1], action_space_flat_dim = 1, observation_space_flat_dim = 1,
            max_episode_length = 10\<rparr>
            () \<lparr>storage = []\<rparr>)
            \<lparr>min_buffer_size := 1, buffer_batch_size := 64, target_update_tau := 2\<rparr>)) \<and>
   self_min_buffer_size (the_value (DDPG_init
      ((default_args
            \<lparr>action_space_high = [1], action_space_flat_dim = 1, observation_space_flat_dim = 1,
            max_episode_length = 10\<rparr>
            () \<lparr>storage = []\<rparr>)
            \<lparr>min_buffer_size := 1, buffer_batch_size := 64, target_update_tau := 2\<rparr>))) <
   self_buffer_batch_size (the_value (DDPG_init
      ((default_args
            \<lparr>action_space_high = [1], action_space_flat_dim = 1, observation_space_flat_dim = 1,
            max_episode_length = 10\<rparr>
            () \<lparr>storage = []\<rparr>)
            \<lparr>min_buffer_size := 1, buffer_batch_size := 64, target_update_tau := 2\<rparr>))) \<and>
   self_tau (the_value (DDPG_init
      ((default_args
            \<lparr>action_space_high = [1], action_space_flat_dim = 1, observation_space_flat_dim = 1,
            max_episode_length = 10\<rparr>
            () \<lparr>storage = []\<rparr>)
            \<lparr>min_buffer_size := 1, buffer_batch_size := 64, target_update_tau := 2\<rparr>))) > 1"
  by (simp add: DDPG_init_def default_args_def)

text \<open>
  C7, amended. \<^verbatim>\<open>DDPG.__init__\<close> checks no hyperparameter: whatever
  \<open>min_buffer_size\<close>, \<open>buffer_batch_size\<close> and \<open>target_update_tau\<close> are, it returns an
  instance that stores them as given. It raises only where \<^verbatim>\<open>action_space.high[0]\<close> does,
  on an action space without a component.
\<close>

theorem C7_constructor_validates_nothing:
  "(action_space_high (arg_env_spec a) = [] \<longrightarrow> DDPG_init a = Raised IndexError) \<and>
   (action_space_high (arg_env_spec a) \<noteq> [] \<longrightarrow>
      (\<exists>d. DDPG_init a = Returned d \<and>
           self_min_buffer_size d = min_buffer_size a \<and>
           self_buffer_batch_size d = buffer_batch_size a \<and>
           self_tau d = target_update_tau a))"
  by (auto simp: DDPG_init_def split: list.splits)

theorem C7_constructor_validates_nothing_witness:
  "DDPG_init
      ((default_args
          \<lparr>action_space_high = [], action_space_flat_dim = 0, observation_space_flat_dim = 1,
            max_episode_length = 10\<rparr>
          () \<lparr>storage = []\<rparr>) :: unit ddpg_args) = Raised IndexError \<and>
   (\<exists>d. DDPG_init
      ((default_args
            \<lparr>action_space_high = [1], action_space_flat_dim = 1, observation_space_flat_dim = 1,
            max_episode_length = 10\<rparr>
            () \<lparr>storage = []\<rparr>)
            \<lparr>min_buffer_size := 10, buffer_batch_size := 64, target_update_tau := 0\<rparr>)
      = Returned d \<and>
      self_min_buffer_size d = 10 \<and> self_buffer_batch_size d = 64 \<and> self_tau d = 0)"
  using C7_constructor_validates_nothing[of "(default_args
          \<lparr>action_space_high = [], action_space_flat_dim = 0, observation_space_flat_dim = 1,
            max_episode_length = 10\<rparr>
          () \<lparr>storage = []\<rparr>) :: unit ddpg_args"]
    C7_constructor_validates_nothing[of "((default_args
            \<lparr>action_space_high = [1], action_space_flat_dim = 1, observation_space_flat_dim = 1,
            max_episode_length = 10\<rparr>
            () \<lparr>storage = []\<rparr>)
            \<lparr>min_buffer_size := 10, buffer_batch_size := 64, target_update_tau := 0\<rparr>) :: unit ddpg_args"]
  by (simp add: default_args_def)

section \<open>The loops\<close>

lemma train_steps_idle:
  "int (n_transitions_stored (self_replay_buffer d)) < self_min_buffer_size d \<Longrightarrow>
   train_steps c w k d = (d, Returned ())"
  by (induction k) simp_all

lemma train_steps_frame:
  "train_steps c w k d = (d', res) \<Longrightarrow>
   config_eq d d' \<and>
   self_replay_buffer d' = self_replay_buffer d \<and>
   tabular d' = tabular d \<and>
   acc_rel d d'"
proof (induction k arbitrary: d)
  case 0
  then show ?case by auto
next
  case (Suc k)
  show ?case
  proof (cases "int (n_transitions_stored (self_replay_buffer d)) \<ge> self_min_buffer_size d")
    case False
    with Suc.prems have "train_steps c w k d = (d', res)" by simp
    from Suc.IH[OF this] show ?thesis .
  next
    case True
    obtain d1 r1 where o: "optimize_policy c w d = (d1, r1)" by (cases "optimize_policy c w d")
    note fr = optimize_policy_frame[OF o]
    show ?thesis
    proof (cases r1)
      case (Raised e)
      with Suc.prems True o have "d' = d1" by simp
      moreover have "acc_rel d d1"
        using fr(4-7,9) Raised by (simp add: acc_rel_def)
      ultimately show ?thesis using fr(1,2,8) by simp
    next
      case (Returned out)
      obtain qf_loss y_s qval policy_loss where out: "out = (qf_loss, y_s, qval, policy_loss)"
        by (cases out) auto
      let ?d2 = "d1\<lparr>self_episode_policy_losses := self_episode_policy_losses d1 @ [policy_loss],
                      self_episode_qf_losses := self_episode_qf_losses d1 @ [qf_loss],
                      self_epoch_ys := self_epoch_ys d1 @ [y_s],
                      self_epoch_qs := self_epoch_qs d1 @ [qval]\<rparr>"
      from Suc.prems True o Returned out have "train_steps c w k ?d2 = (d', res)" by simp
      from Suc.IH[OF this] have ih:
        "config_eq ?d2 d'"
        "self_replay_buffer d' = self_replay_buffer ?d2"
        "tabular d' = tabular ?d2"
        "acc_rel ?d2 d'"
        by blast+
      have c2: "config_eq d ?d2" using fr(1) by (simp add: config_eq_def)
      have a2: "acc_rel d ?d2"
        unfolding acc_rel_def
        by (rule exI[of _ "[policy_loss]"], rule exI[of _ "[qf_loss]"], rule exI[of _ "[y_s]"],
            rule exI[of _ "[qval]"])
          (use fr(4-7,9) Returned in simp)
      have "config_eq d d'" using config_eq_trans[OF c2 ih(1)] .
      moreover have "self_replay_buffer d' = self_replay_buffer d" using ih(2) fr(2) by simp
      moreover have "tabular d' = tabular d" using ih(3) fr(8) by simp
      moreover have "acc_rel d d'" using acc_rel_trans[OF a2 ih(4)] .
      ultimately show ?thesis by blast
    qed
  qed
qed

lemma train_steps_exact:
  "self_min_buffer_size d \<le> int (n_transitions_stored (self_replay_buffer d)) \<Longrightarrow>
   storage (self_replay_buffer d) \<noteq> [] \<Longrightarrow>
   0 \<le> self_buffer_batch_size d \<Longrightarrow>
   0 \<le> self_exploration_policy_sigma d \<Longrightarrow>
   \<exists>d'. train_steps c w k d = (d', Returned ()) \<and> n_optimize d' = n_optimize d + k \<and>
        n_completed d' = n_completed d + k"
proof (induction k arbitrary: d)
  case 0
  then show ?case by simp
next
  case (Suc k)
  from optimize_policy_returns[OF Suc.prems(2,3,4)]
  obtain d1 out where o: "optimize_policy c w d = (d1, Returned out)" by blast
  note fr = optimize_policy_frame[OF o]
  obtain qf_loss y_s qval policy_loss where out: "out = (qf_loss, y_s, qval, policy_loss)"
    by (cases out) auto
  let ?d2 = "d1\<lparr>self_episode_policy_losses := self_episode_policy_losses d1 @ [policy_loss],
                  self_episode_qf_losses := self_episode_qf_losses d1 @ [qf_loss],
                  self_epoch_ys := self_epoch_ys d1 @ [y_s],
                  self_epoch_qs := self_epoch_qs d1 @ [qval]\<rparr>"
  have step: "train_steps c w (Suc k) d = train_steps c w k ?d2"
    using Suc.prems(1) o out by simp
  have pre: "self_min_buffer_size ?d2 \<le> int (n_transitions_stored (self_replay_buffer ?d2))"
    "storage (self_replay_buffer ?d2) \<noteq> []"
    "0 \<le> self_buffer_batch_size ?d2" "0 \<le> self_exploration_policy_sigma ?d2"
    using Suc.prems fr(1,2) by (auto simp: config_eq_def n_transitions_stored_def)
  from Suc.IH[OF pre] obtain d' where
    "train_steps c w k ?d2 = (d', Returned ())" "n_optimize d' = n_optimize ?d2 + k"
    "n_completed d' = n_completed ?d2 + k"
    by blast
  with step fr(3,9) show ?case by simp
qed

lemma train_once_idle:
  "int (n_transitions_stored (self_replay_buffer d)) < self_min_buffer_size d \<Longrightarrow>
   train_once c w itr d =
     (d, if self_steps_per_epoch d = 0 then Raised ZeroDivisionError else Returned ())"
  by (simp add: train_once_def train_steps_idle)

lemma train_once_frame:
  assumes "train_once c w itr d = (d', res)"
  shows "config_eq d d'"
    and "self_replay_buffer d' = self_replay_buffer d"
    and "acc_rel d d'"
proof -
  obtain d1 r1 where t: "train_steps c w (nat (self_n_train_steps d)) d = (d1, r1)"
    by (cases "train_steps c w (nat (self_n_train_steps d)) d")
  note f1 = train_steps_frame[OF t]
  obtain d2 r2 where r: "record_statistics (real itr / real_of_int (self_steps_per_epoch d)) d1 = (d2, r2)"
    by (cases "record_statistics (real itr / real_of_int (self_steps_per_epoch d)) d1")
  note f2 = record_statistics_frame[OF r]
  have a2: "acc_rel d1 d2" using f2(5-9) by (simp add: acc_rel_def)
  have "d' = d \<or> d' = d1 \<or> d' = d2"
    using assms t r by (auto simp: train_once_def Let_def split: if_splits result.splits)
  then show "config_eq d d'"
    and "self_replay_buffer d' = self_replay_buffer d"
    and "acc_rel d d'"
    using f1 f2(1,2) a2 by (auto intro: config_eq_trans acc_rel_trans)
qed

lemma train_once_exact:
  assumes "self_min_buffer_size d \<le> int (n_transitions_stored (self_replay_buffer d))"
    and "storage (self_replay_buffer d) \<noteq> []"
    and "0 \<le> self_buffer_batch_size d"
    and "0 \<le> self_exploration_policy_sigma d"
    and "self_steps_per_epoch d \<noteq> 0"
  shows "n_optimize (fst (train_once c w itr d)) = n_optimize d + nat (self_n_train_steps d)"
    and "n_completed (fst (train_once c w itr d)) = n_completed d + nat (self_n_train_steps d)"
proof -
  from train_steps_exact[OF assms(1-4), of c w "nat (self_n_train_steps d)"]
  obtain d1 where t: "train_steps c w (nat (self_n_train_steps d)) d = (d1, Returned ())"
    and n: "n_optimize d1 = n_optimize d + nat (self_n_train_steps d)"
    and m: "n_completed d1 = n_completed d + nat (self_n_train_steps d)" by blast
  obtain d2 r2 where r: "record_statistics (real itr / real_of_int (self_steps_per_epoch d)) d1 = (d2, r2)"
    by (cases "record_statistics (real itr / real_of_int (self_steps_per_epoch d)) d1")
  note f2 = record_statistics_frame[OF r]
  have "fst (train_once c w itr d) = d1 \<or> fst (train_once c w itr d) = d2"
    using assms(5) t r by (auto simp: train_once_def Let_def)
  with n m f2(3,9)
  show "n_optimize (fst (train_once c w itr d)) = n_optimize d + nat (self_n_train_steps d)"
    and "n_completed (fst (train_once c w itr d)) = n_completed d + nat (self_n_train_steps d)"
    by auto
qed

text \<open>What one cycle does to the runner, and which algorithm state it leaves.\<close>

lemma train_cycle_frame:
  assumes "train_cycle c w cycle s = (s', res)"
  defines "ag \<equiv> (if self_start_steps (ls_algo s) \<le> int (step_itr (ls_runner s))
                  then ExplorationPolicy else UniformRandomPolicy)"
  defines "path \<equiv> episodes w (step_itr (ls_runner s)) ag"
  defines "d1 \<equiv> (ls_algo s)\<lparr>self_replay_buffer :=
                    add_episode_batch (self_replay_buffer (ls_algo s)) path\<rparr>"
  shows "config_eq (ls_algo s) (ls_algo s')"
    and "length (storage (self_replay_buffer (ls_algo s'))) =
         length (storage (self_replay_buffer (ls_algo s))) + length path"
    and "total_env_steps (ls_runner s') = total_env_steps (ls_runner s) + length path"
    and "n_epochs (ls_runner s') = n_epochs (ls_runner s)"
    and "sampler_calls (ls_runner s') = sampler_calls (ls_runner s) @
           [\<lparr>call_itr = step_itr (ls_runner s), call_env_steps = total_env_steps (ls_runner s),
             call_agent = ag\<rparr>]"
    and "step_itr (ls_runner s') =
           (if is_Returned res then step_itr (ls_runner s) + 1 else step_itr (ls_runner s))"
    and "ls_algo s' =
           (if self_start_steps (ls_algo s) \<le> int (total_env_steps (ls_runner s) + length path)
            then fst (train_once c w (step_itr (ls_runner s)) d1) else d1)"
    and "storage (self_replay_buffer (ls_algo s')) =
         storage (self_replay_buffer (ls_algo s)) @ path"
    and "acc_rel (ls_algo s) (ls_algo s')"
proof -
  obtain d2 r2 where t: "train_once c w (step_itr (ls_runner s)) d1 = (d2, r2)"
    by (cases "train_once c w (step_itr (ls_runner s)) d1")
  note f = train_once_frame[OF t]
  have c1: "config_eq (ls_algo s) d1" by (simp add: config_eq_def add_episode_batch_def d1_def)
  have a1: "acc_rel (ls_algo s) d1" by (simp add: acc_rel_def d1_def)
  show a: "ls_algo s' =
           (if self_start_steps (ls_algo s) \<le> int (total_env_steps (ls_runner s) + length path)
            then fst (train_once c w (step_itr (ls_runner s)) d1) else d1)"
    using assms(1) t
    by (auto simp: train_cycle_def obtain_episodes_def Let_def ag_def path_def d1_def
        split: if_splits result.splits prod.splits)
  then have "ls_algo s' = d1 \<or> ls_algo s' = d2" using t by (auto split: if_splits)
  then show "config_eq (ls_algo s) (ls_algo s')"
    and "length (storage (self_replay_buffer (ls_algo s'))) =
         length (storage (self_replay_buffer (ls_algo s))) + length path"
    and "storage (self_replay_buffer (ls_algo s')) =
         storage (self_replay_buffer (ls_algo s)) @ path"
    and "acc_rel (ls_algo s) (ls_algo s')"
    using c1 a1 f by (auto intro: config_eq_trans acc_rel_trans simp: add_episode_batch_def d1_def)
  show "total_env_steps (ls_runner s') = total_env_steps (ls_runner s) + length path"
    and "n_epochs (ls_runner s') = n_epochs (ls_runner s)"
    and "sampler_calls (ls_runner s') = sampler_calls (ls_runner s) @
           [\<lparr>call_itr = step_itr (ls_runner s), call_env_steps = total_env_steps (ls_runner s),
             call_agent = ag\<rparr>]"
    and "step_itr (ls_runner s') =
           (if is_Returned res then step_itr (ls_runner s) + 1 else step_itr (ls_runner s))"
    using assms(1)
    by (auto simp: train_cycle_def obtain_episodes_def Let_def ag_def path_def
        split: if_splits result.splits prod.splits)
qed

lemma train_cycle_run:
  assumes "train_cycle c w cycle s = (s', res)"
    and "self_steps_per_epoch (ls_algo s) \<noteq> 0"
  shows "run_rel s s' res"
proof -
  note f = train_cycle_frame[OF assms(1)]
  let ?ag = "(if self_start_steps (ls_algo s) \<le> int (step_itr (ls_runner s))
              then ExplorationPolicy else UniformRandomPolicy)"
  let ?path = "episodes w (step_itr (ls_runner s)) ?ag"
  let ?d1 = "(ls_algo s)\<lparr>self_replay_buffer := add_episode_batch (self_replay_buffer (ls_algo s)) ?path\<rparr>"
  have "idle_rel s s' \<and> res = Returned ()"
    if lt: "int (length (storage (self_replay_buffer (ls_algo s')))) < self_min_buffer_size (ls_algo s)"
  proof -
    have "int (n_transitions_stored (self_replay_buffer ?d1)) < self_min_buffer_size ?d1"
      using lt f(2) by (simp add: n_transitions_stored_def add_episode_batch_def)
    from train_once_idle[OF this]
    have t: "train_once c w (step_itr (ls_runner s)) ?d1 = (?d1, Returned ())"
      using assms(2) by simp
    have n: "\<not> self_min_buffer_size (ls_algo s) \<le> int (n_transitions_stored (self_replay_buffer ?d1))"
      using lt f(2) by (simp add: n_transitions_stored_def add_episode_batch_def)
    show ?thesis
      using assms(1) t n
      by (auto simp: train_cycle_def obtain_episodes_def Let_def idle_rel_def
          split: if_splits prod.splits)
  qed
  then show ?thesis
    using f(1,2,4) by (simp add: run_rel_def)
qed

lemma run_rel_refl: "run_rel s s (Returned ())"
  by (simp add: run_rel_def idle_rel_def)

lemma run_rel_trans:
  assumes "run_rel a b (Returned ())" and "run_rel b c res"
  shows "run_rel a c res"
  using assms unfolding run_rel_def idle_rel_def config_eq_def
  by (intro conjI impI; (elim conjE)?; simp)

lemma train_cycles_run:
  "train_cycles c w cycle k s = (s', res) \<Longrightarrow> self_steps_per_epoch (ls_algo s) \<noteq> 0 \<Longrightarrow>
   run_rel s s' res"
proof (induction k arbitrary: s cycle)
  case 0
  then show ?case by (auto simp: run_rel_refl)
next
  case (Suc k)
  obtain s1 r1 where t: "train_cycle c w cycle s = (s1, r1)" by (cases "train_cycle c w cycle s")
  note r = train_cycle_run[OF t Suc.prems(2)]
  show ?case
  proof (cases r1)
    case (Raised e)
    with Suc.prems(1) t have "s' = s1" "res = r1" by simp_all
    with r show ?thesis by simp
  next
    case (Returned u)
    with Suc.prems(1) t have n: "train_cycles c w (Suc cycle) k s1 = (s', res)" by simp
    have "self_steps_per_epoch (ls_algo s1) \<noteq> 0"
      using r Suc.prems(2) by (simp add: run_rel_def config_eq_def)
    from Suc.IH[OF n this] r Returned show ?thesis by (auto intro: run_rel_trans)
  qed
qed

lemma train_epochs_run:
  "train_epochs c w k s = (s', res) \<Longrightarrow> run_rel s s' res"
proof (induction k arbitrary: s)
  case 0
  then show ?case by (auto simp: run_rel_refl)
next
  case (Suc k)
  let ?n = "nat (self_steps_per_epoch (ls_algo s))"
  obtain s1 r1 where t: "train_cycles c w 0 ?n s = (s1, r1)" by (cases "train_cycles c w 0 ?n s")
  have r: "run_rel s s1 r1"
  proof (cases "self_steps_per_epoch (ls_algo s) = 0")
    case True
    with t show ?thesis by (auto simp: run_rel_refl)
  next
    case False
    from train_cycles_run[OF t False] show ?thesis .
  qed
  show ?case
  proof (cases r1)
    case (Raised e)
    with Suc.prems(1) t have "s' = s1" "res = r1" by simp_all
    with r show ?thesis by simp
  next
    case (Returned u)
    with Suc.prems(1) t have n: "train_epochs c w k s1 = (s', res)" by simp
    from Suc.IH[OF n] r Returned show ?thesis by (auto intro: run_rel_trans)
  qed
qed

text \<open>The state \<^verbatim>\<open>train\<close> ends in is the one its loops end in.\<close>

lemma train_state:
  "fst (train c w r d) =
   fst (train_epochs c w (n_epochs r)
          \<lparr>ls_runner = r\<lparr>enable_logging := False\<rparr>, ls_algo = d, last_returns = None\<rparr>)"
  by (simp add: train_def split: prod.splits result.splits)

lemma train_run:
  "\<exists>res. run_rel \<lparr>ls_runner = r\<lparr>enable_logging := False\<rparr>, ls_algo = d, last_returns = None\<rparr>
           (fst (train c w r d)) res \<and>
         snd (train c w r d) =
           (case res of Raised e \<Rightarrow> Raised e
            | Returned u \<Rightarrow> np_mean_opt (last_returns (fst (train c w r d))))"
proof -
  let ?s0 = "\<lparr>ls_runner = r\<lparr>enable_logging := False\<rparr>, ls_algo = d, last_returns = None\<rparr>"
  obtain s res where t: "train_epochs c w (n_epochs r) ?s0 = (s, res)"
    by (cases "train_epochs c w (n_epochs r) ?s0")
  have "fst (train c w r d) = s"
    and "snd (train c w r d) =
           (case res of Raised e \<Rightarrow> Raised e | Returned u \<Rightarrow> np_mean_opt (last_returns s))"
    using t by (simp_all add: train_def split: result.splits)
  with train_epochs_run[OF t] show ?thesis by auto
qed




section \<open>The sampler's calls\<close>

lemma expected_calls_0 [simp]: "expected_calls start itr0 0 = []"
  by (simp add: expected_calls_def)

lemma expected_calls_Suc:
  "expected_calls start itr0 (Suc m) =
     (itr0, if start \<le> int itr0 then ExplorationPolicy else UniformRandomPolicy)
     # expected_calls start (Suc itr0) m"
  unfolding expected_calls_def by (subst map_upt_Suc) simp

lemma expected_calls_add:
  "expected_calls start itr0 (m + n) =
     expected_calls start itr0 m @ expected_calls start (itr0 + m) n"
  by (induction m arbitrary: itr0) (simp_all add: expected_calls_Suc)

lemma train_cycles_calls:
  "train_cycles c w cycle k s = (s', res) \<Longrightarrow>
   config_eq (ls_algo s) (ls_algo s') \<and>
   (\<exists>m \<le> k.
      map (\<lambda>cl. (call_itr cl, call_agent cl)) (sampler_calls (ls_runner s')) =
        map (\<lambda>cl. (call_itr cl, call_agent cl)) (sampler_calls (ls_runner s)) @
        expected_calls (self_start_steps (ls_algo s)) (step_itr (ls_runner s)) m \<and>
      (is_Returned res \<longrightarrow> m = k \<and> step_itr (ls_runner s') = step_itr (ls_runner s) + k))"
proof (induction k arbitrary: s cycle)
  case 0
  then show ?case by auto
next
  case (Suc k)
  obtain s1 r1 where t: "train_cycle c w cycle s = (s1, r1)" by (cases "train_cycle c w cycle s")
  note f = train_cycle_frame[OF t]
  have one: "map (\<lambda>cl. (call_itr cl, call_agent cl)) (sampler_calls (ls_runner s1)) =
        map (\<lambda>cl. (call_itr cl, call_agent cl)) (sampler_calls (ls_runner s)) @
        expected_calls (self_start_steps (ls_algo s)) (step_itr (ls_runner s)) (Suc 0)"
    using f(5) by (simp add: expected_calls_Suc)
  show ?case
  proof (cases r1)
    case (Raised e)
    with Suc.prems t have "s' = s1" "res = Raised e" by simp_all
    with f(1) one show ?thesis by (intro conjI exI[of _ "Suc 0"]) simp_all
  next
    case (Returned u)
    with Suc.prems t have n: "train_cycles c w (Suc cycle) k s1 = (s', res)" by simp
    from Suc.IH[OF n] obtain m where ih: "config_eq (ls_algo s1) (ls_algo s')" "m \<le> k"
      "map (\<lambda>cl. (call_itr cl, call_agent cl)) (sampler_calls (ls_runner s')) =
        map (\<lambda>cl. (call_itr cl, call_agent cl)) (sampler_calls (ls_runner s1)) @
        expected_calls (self_start_steps (ls_algo s1)) (step_itr (ls_runner s1)) m"
      "is_Returned res \<longrightarrow> m = k \<and> step_itr (ls_runner s') = step_itr (ls_runner s1) + k"
      by blast
    have st: "self_start_steps (ls_algo s1) = self_start_steps (ls_algo s)"
      using f(1) by (simp add: config_eq_def)
    have it: "step_itr (ls_runner s1) = Suc (step_itr (ls_runner s))"
      using f(6) Returned by simp
    have "map (\<lambda>cl. (call_itr cl, call_agent cl)) (sampler_calls (ls_runner s')) =
        map (\<lambda>cl. (call_itr cl, call_agent cl)) (sampler_calls (ls_runner s)) @
        expected_calls (self_start_steps (ls_algo s)) (step_itr (ls_runner s)) (Suc m)"
      using ih(3) one st it by (simp add: expected_calls_Suc)
    moreover have "is_Returned res \<longrightarrow>
        Suc m = Suc k \<and> step_itr (ls_runner s') = step_itr (ls_runner s) + Suc k"
      using ih(4) it by simp
    moreover have "config_eq (ls_algo s) (ls_algo s')"
      using config_eq_trans[OF f(1) ih(1)] .
    moreover have "Suc m \<le> Suc k" using ih(2) by simp
    ultimately show ?thesis by blast
  qed
qed

lemma train_epochs_calls:
  "train_epochs c w k s = (s', res) \<Longrightarrow>
   config_eq (ls_algo s) (ls_algo s') \<and>
   (\<exists>m.
      map (\<lambda>cl. (call_itr cl, call_agent cl)) (sampler_calls (ls_runner s')) =
        map (\<lambda>cl. (call_itr cl, call_agent cl)) (sampler_calls (ls_runner s)) @
        expected_calls (self_start_steps (ls_algo s)) (step_itr (ls_runner s)) m \<and>
      (is_Returned res \<longrightarrow>
         m = k * nat (self_steps_per_epoch (ls_algo s)) \<and>
         step_itr (ls_runner s') = step_itr (ls_runner s) + m))"
proof (induction k arbitrary: s)
  case 0
  then show ?case by (auto intro: exI[of _ 0])
next
  case (Suc k)
  let ?n = "nat (self_steps_per_epoch (ls_algo s))"
  obtain s1 r1 where t: "train_cycles c w 0 ?n s = (s1, r1)" by (cases "train_cycles c w 0 ?n s")
  from train_cycles_calls[OF t] obtain m1 where c1: "config_eq (ls_algo s) (ls_algo s1)"
    and m1: "map (\<lambda>cl. (call_itr cl, call_agent cl)) (sampler_calls (ls_runner s1)) =
        map (\<lambda>cl. (call_itr cl, call_agent cl)) (sampler_calls (ls_runner s)) @
        expected_calls (self_start_steps (ls_algo s)) (step_itr (ls_runner s)) m1"
    and r1: "is_Returned r1 \<longrightarrow> m1 = ?n \<and> step_itr (ls_runner s1) = step_itr (ls_runner s) + ?n"
    by blast
  show ?case
  proof (cases r1)
    case (Raised e)
    with Suc.prems t have "s' = s1" "res = Raised e" by simp_all
    with c1 m1 show ?thesis by auto
  next
    case (Returned u)
    with Suc.prems t have n: "train_epochs c w k s1 = (s', res)" by simp
    from Suc.IH[OF n] obtain m2 where c2: "config_eq (ls_algo s1) (ls_algo s')"
      and m2: "map (\<lambda>cl. (call_itr cl, call_agent cl)) (sampler_calls (ls_runner s')) =
        map (\<lambda>cl. (call_itr cl, call_agent cl)) (sampler_calls (ls_runner s1)) @
        expected_calls (self_start_steps (ls_algo s1)) (step_itr (ls_runner s1)) m2"
      and r2: "is_Returned res \<longrightarrow>
         m2 = k * nat (self_steps_per_epoch (ls_algo s1)) \<and>
         step_itr (ls_runner s') = step_itr (ls_runner s1) + m2"
      by blast
    have eqs: "self_start_steps (ls_algo s1) = self_start_steps (ls_algo s)"
      "self_steps_per_epoch (ls_algo s1) = self_steps_per_epoch (ls_algo s)"
      using c1 by (simp_all add: config_eq_def)
    have it: "m1 = ?n" "step_itr (ls_runner s1) = step_itr (ls_runner s) + ?n"
      using r1 Returned by simp_all
    have "map (\<lambda>cl. (call_itr cl, call_agent cl)) (sampler_calls (ls_runner s')) =
        map (\<lambda>cl. (call_itr cl, call_agent cl)) (sampler_calls (ls_runner s)) @
        expected_calls (self_start_steps (ls_algo s)) (step_itr (ls_runner s)) (m1 + m2)"
      using m1 m2 eqs it by (simp add: expected_calls_add)
    moreover have "is_Returned res \<longrightarrow>
         m1 + m2 = Suc k * ?n \<and>
         step_itr (ls_runner s') = step_itr (ls_runner s) + (m1 + m2)"
      using r2 eqs it by simp
    moreover have "config_eq (ls_algo s) (ls_algo s')" using config_eq_trans[OF c1 c2] .
    ultimately show ?thesis by blast
  qed
qed


section \<open>Claims about the training loop\<close>

lemmas run_defs = train_def train_cycle_def train_once_def record_statistics_def
  obtain_episodes_def add_episode_batch_def n_transitions_stored_def
  np_mean_def np_mean_opt_def np_max_def numeral_2_eq_2

lemma train_cycle_n_optimize:
  assumes "train_cycle c w cycle s = (s', res)"
  shows "self_start_steps (ls_algo s) \<le> int (total_env_steps (ls_runner s')) \<Longrightarrow>
         self_min_buffer_size (ls_algo s) \<le> int (n_transitions_stored (self_replay_buffer (ls_algo s'))) \<Longrightarrow>
         0 < n_transitions_stored (self_replay_buffer (ls_algo s')) \<Longrightarrow>
         0 \<le> self_buffer_batch_size (ls_algo s) \<Longrightarrow>
         0 \<le> self_exploration_policy_sigma (ls_algo s) \<Longrightarrow>
         self_steps_per_epoch (ls_algo s) \<noteq> 0 \<Longrightarrow>
         n_optimize (ls_algo s') = n_optimize (ls_algo s) + nat (self_n_train_steps (ls_algo s))"
    and "int (total_env_steps (ls_runner s')) < self_start_steps (ls_algo s) \<or>
         int (n_transitions_stored (self_replay_buffer (ls_algo s'))) < self_min_buffer_size (ls_algo s) \<Longrightarrow>
         n_optimize (ls_algo s') = n_optimize (ls_algo s)"
proof -
  note f = train_cycle_frame[OF assms]
  let ?ag = "(if self_start_steps (ls_algo s) \<le> int (step_itr (ls_runner s))
              then ExplorationPolicy else UniformRandomPolicy)"
  let ?path = "episodes w (step_itr (ls_runner s)) ?ag"
  let ?d1 = "(ls_algo s)\<lparr>self_replay_buffer := add_episode_batch (self_replay_buffer (ls_algo s)) ?path\<rparr>"
  have len: "length (storage (self_replay_buffer ?d1)) = length (storage (self_replay_buffer (ls_algo s')))"
    using f(2) by (simp add: add_episode_batch_def)
  {
    assume a: "self_start_steps (ls_algo s) \<le> int (total_env_steps (ls_runner s'))"
      "self_min_buffer_size (ls_algo s) \<le> int (n_transitions_stored (self_replay_buffer (ls_algo s')))"
      "0 < n_transitions_stored (self_replay_buffer (ls_algo s'))"
      "0 \<le> self_buffer_batch_size (ls_algo s)"
      "0 \<le> self_exploration_policy_sigma (ls_algo s)"
      "self_steps_per_epoch (ls_algo s) \<noteq> 0"
    have pre: "self_min_buffer_size ?d1 \<le> int (n_transitions_stored (self_replay_buffer ?d1))"
      "storage (self_replay_buffer ?d1) \<noteq> []"
      "0 \<le> self_buffer_batch_size ?d1" "0 \<le> self_exploration_policy_sigma ?d1"
      "self_steps_per_epoch ?d1 \<noteq> 0"
      using a len by (auto simp: n_transitions_stored_def)
    have "ls_algo s' = fst (train_once c w (step_itr (ls_runner s)) ?d1)"
      using f(7) f(3) a(1) by simp
    with train_once_exact[OF pre, of c w "step_itr (ls_runner s)"]
    show "n_optimize (ls_algo s') = n_optimize (ls_algo s) + nat (self_n_train_steps (ls_algo s))"
      by simp
  }
  {
    assume b: "int (total_env_steps (ls_runner s')) < self_start_steps (ls_algo s) \<or>
         int (n_transitions_stored (self_replay_buffer (ls_algo s'))) < self_min_buffer_size (ls_algo s)"
    have "ls_algo s' = ?d1"
    proof (cases "int (total_env_steps (ls_runner s')) < self_start_steps (ls_algo s)")
      case True
      then show ?thesis using f(7) f(3) by simp
    next
      case False
      with b have "int (n_transitions_stored (self_replay_buffer ?d1)) < self_min_buffer_size ?d1"
        using len by (simp add: n_transitions_stored_def)
      from train_once_idle[OF this, of c w "step_itr (ls_runner s)"] f(7) show ?thesis
        by (simp split: if_splits)
    qed
    then show "n_optimize (ls_algo s') = n_optimize (ls_algo s)" by simp
  }
qed

text \<open>
  C3. No optimisation step runs while the store is below \<open>min_buffer_size\<close>: when a
  whole run of \<^verbatim>\<open>train\<close> ends with fewer stored transitions than \<open>min_buffer_size\<close> (the
  store only grows, so it stayed below all along), the number of \<^verbatim>\<open>optimize_policy\<close> calls
  and the network variables are what they were before the run.
\<close>

theorem C3_no_optimization_below_min_buffer_size:
  assumes "int (n_transitions_stored (self_replay_buffer (ls_algo (fst (train c w r d)))))
           < self_min_buffer_size d"
  shows "n_optimize (ls_algo (fst (train c w r d))) = n_optimize d \<and>
         nets (ls_algo (fst (train c w r d))) = nets d"
proof -
  from train_run[of r d c w] obtain res where
    "run_rel \<lparr>ls_runner = r\<lparr>enable_logging := False\<rparr>, ls_algo = d, last_returns = None\<rparr>
       (fst (train c w r d)) res" by blast
  with assms show ?thesis
    by (simp add: run_rel_def idle_rel_def n_transitions_stored_def)
qed

theorem C3_no_optimization_below_min_buffer_size_witness:
  "n_optimize (ls_algo (fst (train
      \<lparr>target_policy_f_prob_online = (\<lambda>n ob. ob),
         target_qf_f_prob_online = (\<lambda>n ob ac. Finite 5),
         f_train_qf = (\<lambda>n ys obs acs. (n, Finite 0, ys)),
         f_train_policy = (\<lambda>n obs. (n, Finite 0)),
         f_update_target = (\<lambda>n. n)\<rparr>
      \<lparr>episodes = (\<lambda>itr ag. [\<lparr>observation = [Finite 0], action = [Finite 0], reward = Finite 1,
             next_observation = [Finite 0], terminal = Finite 0\<rparr>]),
         eval_returns = (\<lambda>itr. [Finite 1]),
         draws = (\<lambda>k. \<lparr>pick = (\<lambda>j. 0), normal = (\<lambda>i j. 0)\<rparr>)\<rparr>
      \<lparr>n_epochs = 1, step_itr = 0, total_env_steps = 0, enable_logging = False,
         step_path = [], sampler_calls = []\<rparr>
      (the_value (DDPG_init
          ((default_args
            \<lparr>action_space_high = [1], action_space_flat_dim = 1, observation_space_flat_dim = 1,
            max_episode_length = 10\<rparr>
            () \<lparr>storage = []\<rparr>)
            \<lparr>steps_per_epoch := 2, n_train_steps := 2, start_steps := 0, min_buffer_size := 3\<rparr>)))))) = 0"
  (is "n_optimize (ls_algo (fst (train ?c ?w ?r ?d))) = 0")
proof -
  have h: "int (n_transitions_stored (self_replay_buffer (ls_algo (fst (train ?c ?w ?r ?d)))))
           < self_min_buffer_size ?d"
    by (simp add: run_defs DDPG_init_def default_args_def Let_def)
  from C3_no_optimization_below_min_buffer_size[OF h] show ?thesis
    by (simp add: DDPG_init_def default_args_def)
qed

text \<open>
  C4, as the specification states it: a cycle that ends with at least \<open>min_buffer_size\<close>
  stored transitions would run \<open>n_train_steps\<close> optimisation steps. \<^verbatim>\<open>train\<close> calls
  \<^verbatim>\<open>train_once\<close> only when \<open>total_env_steps \<ge> start_steps\<close>: with \<open>start_steps = 1000\<close>, one
  environment step taken and \<open>min_buffer_size = 1\<close>, the cycle runs no step.
\<close>

theorem C4_no_step_before_start_steps:
  "self_min_buffer_size (ls_algo (fst (train_cycle
      \<lparr>target_policy_f_prob_online = (\<lambda>n ob. ob),
         target_qf_f_prob_online = (\<lambda>n ob ac. Finite 5),
         f_train_qf = (\<lambda>n ys obs acs. (n, Finite 0, ys)),
         f_train_policy = (\<lambda>n obs. (n, Finite 0)),
         f_update_target = (\<lambda>n. n)\<rparr>
      \<lparr>episodes = (\<lambda>itr ag. [\<lparr>observation = [Finite 0], action = [Finite 0], reward = Finite 1,
             next_observation = [Finite 0], terminal = Finite 0\<rparr>]),
         eval_returns = (\<lambda>itr. [Finite 1]),
         draws = (\<lambda>k. \<lparr>pick = (\<lambda>j. 0), normal = (\<lambda>i j. 0)\<rparr>)\<rparr>
      0
      \<lparr>ls_runner = \<lparr>n_epochs = 1, step_itr = 0, total_env_steps = 0, enable_logging = False,
         step_path = [], sampler_calls = []\<rparr>,
        ls_algo = (the_value (DDPG_init
          ((default_args
            \<lparr>action_space_high = [1], action_space_flat_dim = 1, observation_space_flat_dim = 1,
            max_episode_length = 10\<rparr>
            () \<lparr>storage = []\<rparr>)
            \<lparr>n_train_steps := 2, buffer_batch_size := 1, min_buffer_size := 1\<rparr>))),
        last_returns = None\<rparr>)))
     \<le> int (n_transitions_stored (self_replay_buffer (ls_algo (fst (train_cycle
      \<lparr>target_policy_f_prob_online = (\<lambda>n ob. ob),
         target_qf_f_prob_online = (\<lambda>n ob ac. Finite 5),
         f_train_qf = (\<lambda>n ys obs acs. (n, Finite 0, ys)),
         f_train_policy = (\<lambda>n obs. (n, Finite 0)),
         f_update_target = (\<lambda>n. n)\<rparr>
      \<lparr>episodes = (\<lambda>itr ag. [\<lparr>observation = [Finite 0], action = [Finite 0], reward = Finite 1,
             next_observation = [Finite 0], terminal = Finite 0\<rparr>]),
         eval_returns = (\<lambda>itr. [Finite 1]),
         draws = (\<lambda>k. \<lparr>pick = (\<lambda>j. 0), normal = (\<lambda>i j. 0)\<rparr>)\<rparr>
      0
      \<lparr>ls_runner = \<lparr>n_epochs = 1, step_itr = 0, total_env_steps = 0, enable_logging = False,
         step_path = [], sampler_calls = []\<rparr>,
        ls_algo = (the_value (DDPG_init
          ((default_args
            \<lparr>action_space_high = [1], action_space_flat_dim = 1, observation_space_flat_dim = 1,
            max_episode_length = 10\<rparr>
            () \<lparr>storage = []\<rparr>)
            \<lparr>n_train_steps := 2, buffer_batch_size := 1, min_buffer_size := 1\<rparr>))),
        last_returns = None\<rparr>))))) \<and>
   n_optimize (ls_algo (fst (train_cycle
      \<lparr>target_policy_f_prob_online = (\<lambda>n ob. ob),
         target_qf_f_prob_online = (\<lambda>n ob ac. Finite 5),
         f_train_qf = (\<lambda>n ys obs acs. (n, Finite 0, ys)),
         f_train_policy = (\<lambda>n obs. (n, Finite 0)),
         f_update_target = (\<lambda>n. n)\<rparr>
      \<lparr>episodes = (\<lambda>itr ag. [\<lparr>observation = [Finite 0], action = [Finite 0], reward = Finite 1,
             next_observation = [Finite 0], terminal = Finite 0\<rparr>]),
         eval_returns = (\<lambda>itr. [Finite 1]),
         draws = (\<lambda>k. \<lparr>pick = (\<lambda>j. 0), normal = (\<lambda>i j. 0)\<rparr>)\<rparr>
      0
      \<lparr>ls_runner = \<lparr>n_epochs = 1, step_itr = 0, total_env_steps = 0, enable_logging = False,
         step_path = [], sampler_calls = []\<rparr>,
        ls_algo = (the_value (DDPG_init
          ((default_args
            \<lparr>action_space_high = [1], action_space_flat_dim = 1, observation_space_flat_dim = 1,
            max_episode_length = 10\<rparr>
            () \<lparr>storage = []\<rparr>)
            \<lparr>n_train_steps := 2, buffer_batch_size := 1, min_buffer_size := 1\<rparr>))),
        last_returns = None\<rparr>))) = 0 \<and>
   self_n_train_steps (ls_algo (fst (train_cycle
      \<lparr>target_policy_f_prob_online = (\<lambda>n ob. ob),
         target_qf_f_prob_online = (\<lambda>n ob ac. Finite 5),
         f_train_qf = (\<lambda>n ys obs acs. (n, Finite 0, ys)),
         f_train_policy = (\<lambda>n obs. (n, Finite 0)),
         f_update_target = (\<lambda>n. n)\<rparr>
      \<lparr>episodes = (\<lambda>itr ag. [\<lparr>observation = [Finite 0], action = [Finite 0], reward = Finite 1,
             next_observation = [Finite 0], terminal = Finite 0\<rparr>]),
         eval_returns = (\<lambda>itr. [Finite 1]),
         draws = (\<lambda>k. \<lparr>pick = (\<lambda>j. 0), normal = (\<lambda>i j. 0)\<rparr>)\<rparr>
      0
      \<lparr>ls_runner = \<lparr>n_epochs = 1, step_itr = 0, total_env_steps = 0, enable_logging = False,
         step_path = [], sampler_calls = []\<rparr>,
        ls_algo = (the_value (DDPG_init
          ((default_args
            \<lparr>action_space_high = [1], action_space_flat_dim = 1, observation_space_flat_dim = 1,
            max_episode_length = 10\<rparr>
            () \<lparr>storage = []\<rparr>)
            \<lparr>n_train_steps := 2, buffer_batch_size := 1, min_buffer_size := 1\<rparr>))),
        last_returns = None\<rparr>))) = 2"
  by (simp add: run_defs DDPG_init_def default_args_def Let_def)

text \<open>
  C4, amended. For every training cycle at the end of which the runner's total of
  environment steps is at least \<open>start_steps\<close> and the store holds at least \<open>min_buffer_size\<close>
  transitions (and can be sampled: it is not empty, the batch size and the noise deviation
  are not negative), exactly \<open>n_train_steps\<close> calls of \<^verbatim>\<open>optimize_policy\<close> are made in that
  cycle; when the total of environment steps is below \<open>start_steps\<close>, or the store is below
  \<open>min_buffer_size\<close>, none is made.
\<close>

theorem C4_optimization_steps_per_cycle:
  "(let s' = fst (train_cycle c w cycle s); d = ls_algo s
    in (self_start_steps d \<le> int (total_env_steps (ls_runner s')) \<and>
        self_min_buffer_size d \<le> int (n_transitions_stored (self_replay_buffer (ls_algo s'))) \<and>
        0 < n_transitions_stored (self_replay_buffer (ls_algo s')) \<and>
        0 \<le> self_buffer_batch_size d \<and> 0 \<le> self_exploration_policy_sigma d \<and>
        self_steps_per_epoch d \<noteq> 0
        \<longrightarrow> n_optimize (ls_algo s') = n_optimize d + nat (self_n_train_steps d)) \<and>
       (int (total_env_steps (ls_runner s')) < self_start_steps d \<or>
        int (n_transitions_stored (self_replay_buffer (ls_algo s'))) < self_min_buffer_size d
        \<longrightarrow> n_optimize (ls_algo s') = n_optimize d))"
  unfolding Let_def
  using train_cycle_n_optimize[OF surjective_pairing[of "train_cycle c w cycle s"]]
  by blast

theorem C4_optimization_steps_per_cycle_witness:
  "n_optimize (ls_algo (fst (train_cycle
      \<lparr>target_policy_f_prob_online = (\<lambda>n ob. ob),
         target_qf_f_prob_online = (\<lambda>n ob ac. Finite 5),
         f_train_qf = (\<lambda>n ys obs acs. (n, Finite 0, ys)),
         f_train_policy = (\<lambda>n obs. (n, Finite 0)),
         f_update_target = (\<lambda>n. n)\<rparr>
      \<lparr>episodes = (\<lambda>itr ag. [\<lparr>observation = [Finite 0], action = [Finite 0], reward = Finite 1,
             next_observation = [Finite 0], terminal = Finite 0\<rparr>]),
         eval_returns = (\<lambda>itr. [Finite 1]),
         draws = (\<lambda>k. \<lparr>pick = (\<lambda>j. 0), normal = (\<lambda>i j. 0)\<rparr>)\<rparr>
      0
      \<lparr>ls_runner = \<lparr>n_epochs = 1, step_itr = 0, total_env_steps = 0, enable_logging = False,
         step_path = [], sampler_calls = []\<rparr>,
        ls_algo = (the_value (DDPG_init
          ((default_args
            \<lparr>action_space_high = [1], action_space_flat_dim = 1, observation_space_flat_dim = 1,
            max_episode_length = 10\<rparr>
            () \<lparr>storage = []\<rparr>)
            \<lparr>n_train_steps := 2, start_steps := 0, buffer_batch_size := 1, min_buffer_size := 1\<rparr>))),
        last_returns = None\<rparr>))) = 2 \<and>
   n_optimize (ls_algo (fst (train_cycle
      \<lparr>target_policy_f_prob_online = (\<lambda>n ob. ob),
         target_qf_f_prob_online = (\<lambda>n ob ac. Finite 5),
         f_train_qf = (\<lambda>n ys obs acs. (n, Finite 0, ys)),
         f_train_policy = (\<lambda>n obs. (n, Finite 0)),
         f_update_target = (\<lambda>n. n)\<rparr>
      \<lparr>episodes = (\<lambda>itr ag. [\<lparr>observation = [Finite 0], action = [Finite 0], reward = Finite 1,
             next_observation = [Finite 0], terminal = Finite 0\<rparr>]),
         eval_returns = (\<lambda>itr. [Finite 1]),
         draws = (\<lambda>k. \<lparr>pick = (\<lambda>j. 0), normal = (\<lambda>i j. 0)\<rparr>)\<rparr>
      0
      \<lparr>ls_runner = \<lparr>n_epochs = 1, step_itr = 0, total_env_steps = 0, enable_logging = False,
         step_path = [], sampler_calls = []\<rparr>,
        ls_algo = (the_value (DDPG_init
          ((default_args
            \<lparr>action_space_high = [1], action_space_flat_dim = 1, observation_space_flat_dim = 1,
            max_episode_length = 10\<rparr>
            () \<lparr>storage = []\<rparr>)
            \<lparr>n_train_steps := 2, start_steps := 0, buffer_batch_size := 1, min_buffer_size := 5\<rparr>))),
        last_returns = None\<rparr>))) = 0"
  (is "n_optimize (ls_algo (fst (train_cycle ?c ?w 0 ?s1))) = 2 \<and>
       n_optimize (ls_algo (fst (train_cycle ?c ?w 0 ?s2))) = 0")
proof -
  have f1: "total_env_steps (ls_runner (fst (train_cycle ?c ?w 0 ?s1))) = 1"
    "n_transitions_stored (self_replay_buffer (ls_algo (fst (train_cycle ?c ?w 0 ?s1)))) = 1"
    using train_cycle_frame(2,3)[OF surjective_pairing[of "train_cycle ?c ?w 0 ?s1"]]
    by (simp_all add: DDPG_init_def default_args_def n_transitions_stored_def)
  have f2: "n_transitions_stored (self_replay_buffer (ls_algo (fst (train_cycle ?c ?w 0 ?s2)))) = 1"
    using train_cycle_frame(2)[OF surjective_pairing[of "train_cycle ?c ?w 0 ?s2"]]
    by (simp_all add: DDPG_init_def default_args_def n_transitions_stored_def)
  from f1 C4_optimization_steps_per_cycle[of ?c ?w 0 ?s1]
  have "n_optimize (ls_algo (fst (train_cycle ?c ?w 0 ?s1))) = 2"
    by (simp add: Let_def DDPG_init_def default_args_def)
  moreover from f2 C4_optimization_steps_per_cycle[of ?c ?w 0 ?s2]
  have "n_optimize (ls_algo (fst (train_cycle ?c ?w 0 ?s2))) = 0"
    by (simp add: Let_def DDPG_init_def default_args_def)
  ultimately show ?thesis by simp
qed

text \<open>
  C5, as the specification states it: once the total of environment steps has reached
  \<open>start_steps\<close>, the sampler would act with the exploration policy. \<^verbatim>\<open>train\<close> compares the
  cycle counter \<^verbatim>\<open>runner.step_itr\<close> with \<open>start_steps\<close>: with \<open>start_steps = 2\<close> and five
  environment steps taken in the first cycle, the second cycle (index 1, five steps taken
  so far) still acts with the uniform-random policy.
\<close>

theorem C5_uniform_policy_after_start_steps_env_steps:
  "sampler_calls (ls_runner (fst (train
      \<lparr>target_policy_f_prob_online = (\<lambda>n ob. ob),
         target_qf_f_prob_online = (\<lambda>n ob ac. Finite 5),
         f_train_qf = (\<lambda>n ys obs acs. (n, Finite 0, ys)),
         f_train_policy = (\<lambda>n obs. (n, Finite 0)),
         f_update_target = (\<lambda>n. n)\<rparr>
      \<lparr>episodes = (\<lambda>itr ag. replicate 5 \<lparr>observation = [Finite 0], action = [Finite 0], reward = Finite 1,
             next_observation = [Finite 0], terminal = Finite 0\<rparr>),
        eval_returns = (\<lambda>itr. [Finite 1]),
        draws = (\<lambda>k. \<lparr>pick = (\<lambda>j. 0), normal = (\<lambda>i j. 0)\<rparr>)\<rparr>
      \<lparr>n_epochs = 1, step_itr = 0, total_env_steps = 0, enable_logging = False,
         step_path = [], sampler_calls = []\<rparr>
      (the_value (DDPG_init
          ((default_args
            \<lparr>action_space_high = [1], action_space_flat_dim = 1, observation_space_flat_dim = 1,
            max_episode_length = 10\<rparr>
            () \<lparr>storage = []\<rparr>)
            \<lparr>steps_per_epoch := 2, start_steps := 2\<rparr>)))))) ! 1
   = \<lparr>call_itr = 1, call_env_steps = 5, call_agent = UniformRandomPolicy\<rparr>"
  by (simp add: run_defs DDPG_init_def default_args_def Let_def train_steps_idle)

text \<open>
  C5, amended. In every cycle the acting policy passed to the sampler is chosen by the
  cycle counter \<^verbatim>\<open>runner.step_itr\<close>: the uniform-random policy when \<open>step_itr < start_steps\<close>,
  the algorithm's exploration policy when \<open>step_itr \<ge> start_steps\<close>. The calls that a run of
  \<^verbatim>\<open>train\<close> adds to the sampler's history are those of consecutive cycle indices from the
  runner's initial \<open>step_itr\<close>, each with the policy so chosen; a run that returns has made
  \<open>n_epochs * steps_per_epoch\<close> of them.
\<close>

theorem C5_acting_policy_by_cycle_index:
  "\<exists>m. map (\<lambda>cl. (call_itr cl, call_agent cl)) (sampler_calls (ls_runner (fst (train c w r d)))) =
         map (\<lambda>cl. (call_itr cl, call_agent cl)) (sampler_calls r) @
         map (\<lambda>j. (step_itr r + j,
                    if self_start_steps d \<le> int (step_itr r + j) then ExplorationPolicy
                    else UniformRandomPolicy)) [0..<m] \<and>
       (is_Returned (snd (train c w r d)) \<longrightarrow> m = n_epochs r * nat (self_steps_per_epoch d))"
proof -
  let ?s0 = "\<lparr>ls_runner = r\<lparr>enable_logging := False\<rparr>, ls_algo = d, last_returns = None\<rparr>"
  obtain s res where t: "train_epochs c w (n_epochs r) ?s0 = (s, res)"
    by (cases "train_epochs c w (n_epochs r) ?s0")
  have fs: "fst (train c w r d) = s" using t by (simp add: train_state)
  have ret: "is_Returned (snd (train c w r d)) \<Longrightarrow> is_Returned res"
    using t by (cases res) (simp_all add: train_def)
  from train_epochs_calls[OF t] obtain m where
    m: "map (\<lambda>cl. (call_itr cl, call_agent cl)) (sampler_calls (ls_runner s)) =
        map (\<lambda>cl. (call_itr cl, call_agent cl)) (sampler_calls (ls_runner ?s0)) @
        expected_calls (self_start_steps (ls_algo ?s0)) (step_itr (ls_runner ?s0)) m"
    and k: "is_Returned res \<longrightarrow> m = n_epochs r * nat (self_steps_per_epoch (ls_algo ?s0))"
    by blast
  show ?thesis
    using m k ret fs by (intro exI[of _ m]) (auto simp: expected_calls_def)
qed

theorem C5_acting_policy_by_cycle_index_witness:
  "map (\<lambda>cl. (call_itr cl, call_agent cl)) (sampler_calls (ls_runner (fst (train
      \<lparr>target_policy_f_prob_online = (\<lambda>n ob. ob),
         target_qf_f_prob_online = (\<lambda>n ob ac. Finite 5),
         f_train_qf = (\<lambda>n ys obs acs. (n, Finite 0, ys)),
         f_train_policy = (\<lambda>n obs. (n, Finite 0)),
         f_update_target = (\<lambda>n. n)\<rparr>
      \<lparr>episodes = (\<lambda>itr ag. [\<lparr>observation = [Finite 0], action = [Finite 0], reward = Finite 1,
             next_observation = [Finite 0], terminal = Finite 0\<rparr>]),
         eval_returns = (\<lambda>itr. [Finite 1]),
         draws = (\<lambda>k. \<lparr>pick = (\<lambda>j. 0), normal = (\<lambda>i j. 0)\<rparr>)\<rparr>
      \<lparr>n_epochs = 1, step_itr = 0, total_env_steps = 0, enable_logging = False,
         step_path = [], sampler_calls = []\<rparr>
      (the_value (DDPG_init
          ((default_args
            \<lparr>action_space_high = [1], action_space_flat_dim = 1, observation_space_flat_dim = 1,
            max_episode_length = 10\<rparr>
            () \<lparr>storage = []\<rparr>)
            \<lparr>steps_per_epoch := 2, n_train_steps := 1, start_steps := 1, buffer_batch_size := 1, min_buffer_size := 1\<rparr>)))))))
   = [(0, UniformRandomPolicy), (1, ExplorationPolicy)]"
  (is "map _ (sampler_calls (ls_runner (fst (train ?c ?w ?r ?d)))) = _")
proof -
  have h: "is_Returned (snd (train ?c ?w ?r ?d))"
    by (simp add: run_defs step_defs)
  from C5_acting_policy_by_cycle_index[of ?c ?w ?r ?d] obtain m where
    m: "map (\<lambda>cl. (call_itr cl, call_agent cl)) (sampler_calls (ls_runner (fst (train ?c ?w ?r ?d)))) =
         map (\<lambda>cl. (call_itr cl, call_agent cl)) (sampler_calls ?r) @
         map (\<lambda>j. (step_itr ?r + j,
                    if self_start_steps ?d \<le> int (step_itr ?r + j) then ExplorationPolicy
                    else UniformRandomPolicy)) [0..<m]"
    and k: "is_Returned (snd (train ?c ?w ?r ?d)) \<longrightarrow> m = n_epochs ?r * nat (self_steps_per_epoch ?d)"
    by blast
  from k h have "m = 2" by (simp add: DDPG_init_def default_args_def)
  with m show ?thesis
    by (simp add: DDPG_init_def default_args_def numeral_2_eq_2)
qed

text \<open>
  C8. When no evaluation ever ran because the store never reached \<open>min_buffer_size\<close>,
  \<^verbatim>\<open>last_returns\<close> is still \<^verbatim>\<open>None\<close> after the loops and \<^verbatim>\<open>np.mean(last_returns)\<close> raises
  \<open>TypeError\<close>: \<^verbatim>\<open>train\<close> does not return a number, against its docstring
  (\<^verbatim>\<open>Returns: float\<close>).
\<close>

theorem C8_train_raises_without_evaluation:
  assumes "int (n_transitions_stored (self_replay_buffer (ls_algo (fst (train c w r d)))))
           < self_min_buffer_size d"
  shows "snd (train c w r d) = Raised TypeError"
proof -
  from train_run[of r d c w] obtain res where
    rr: "run_rel \<lparr>ls_runner = r\<lparr>enable_logging := False\<rparr>, ls_algo = d, last_returns = None\<rparr>
       (fst (train c w r d)) res"
    and sn: "snd (train c w r d) =
           (case res of Raised e \<Rightarrow> Raised e
            | Returned u \<Rightarrow> np_mean_opt (last_returns (fst (train c w r d))))"
    by blast
  from rr assms have "res = Returned ()" "last_returns (fst (train c w r d)) = None"
    by (simp_all add: run_rel_def idle_rel_def n_transitions_stored_def)
  with sn show ?thesis by (simp add: np_mean_opt_def)
qed

theorem C8_train_raises_without_evaluation_witness:
  "snd (train
      \<lparr>target_policy_f_prob_online = (\<lambda>n ob. ob),
         target_qf_f_prob_online = (\<lambda>n ob ac. Finite 5),
         f_train_qf = (\<lambda>n ys obs acs. (n, Finite 0, ys)),
         f_train_policy = (\<lambda>n obs. (n, Finite 0)),
         f_update_target = (\<lambda>n. n)\<rparr>
      \<lparr>episodes = (\<lambda>itr ag. [\<lparr>observation = [Finite 0], action = [Finite 0], reward = Finite 1,
             next_observation = [Finite 0], terminal = Finite 0\<rparr>]),
         eval_returns = (\<lambda>itr. [Finite 1]),
         draws = (\<lambda>k. \<lparr>pick = (\<lambda>j. 0), normal = (\<lambda>i j. 0)\<rparr>)\<rparr>
      \<lparr>n_epochs = 1, step_itr = 0, total_env_steps = 0, enable_logging = False,
         step_path = [], sampler_calls = []\<rparr>
      (the_value (DDPG_init
          ((default_args
            \<lparr>action_space_high = [1], action_space_flat_dim = 1, observation_space_flat_dim = 1,
            max_episode_length = 10\<rparr>
            () \<lparr>storage = []\<rparr>)
            \<lparr>steps_per_epoch := 1, n_train_steps := 1, start_steps := 0\<rparr>))))
   = Raised TypeError"
  (is "snd (train ?c ?w ?r ?d) = _")
proof -
  have h: "int (n_transitions_stored (self_replay_buffer (ls_algo (fst (train ?c ?w ?r ?d)))))
           < self_min_buffer_size ?d"
    by (simp add: run_defs DDPG_init_def default_args_def Let_def)
  from C8_train_raises_without_evaluation[OF h] show ?thesis .
qed









end
